theory Spec2Isabelle
  imports Main "HOL-Library.Word"
begin

section \<open>The storage manager of godx: data model\<close>

text \<open>
  The embedding follows the storage manager source (package storagemanager:
  \<open>AddStorageFolder\<close>, \<open>AddSector\<close>, \<open>ReadSector\<close>, \<open>readSector\<close>, \<open>Close\<close>).
  A call is modelled as one sequential run of its body on the manager state, which is
  passed in and returned. Go's \<open>error\<close> results are values of the datatype \<open>error\<close>;
  \<open>nil\<close> is \<open>None\<close>.
\<close>

type_synonym byte = "8 word"

datatype error =
    ErrShutDown \<comment> \<open>"storage manager is shut down"\<close>
  | ErrSectorMeta \<comment> \<open>"Unable to find sector meta"\<close>
  | ErrLoadFolder \<comment> \<open>"Unable to load storage folder"\<close>
  | ErrOpenFolder \<comment> \<open>"Unable to open the folder"\<close>
  | ErrReadSector \<comment> \<open>"fail to read sector"\<close>
  | ErrAlreadyClosed \<comment> \<open>"storage managger already closed"\<close>
  | ErrNoSpaceAvailable \<comment> \<open>the spec's \<open>NoSpaceAvailable\<close>: no folder has a free slot\<close>
  | ErrCapacityExhausted \<comment> \<open>the spec's \<open>CapacityExhausted\<close>: no free slot in the bitmap\<close>
  | ErrWriteFailure \<comment> \<open>the spec's \<open>WriteFailure\<close>: the content write failed\<close>
  | ErrInvalidPath \<comment> \<open>the spec's \<open>InvalidPath\<close> of a folder addition\<close>
  | ErrInsufficientSpace \<comment> \<open>the spec's \<open>InsufficientSpace\<close> of a folder addition\<close>

text \<open>
  An \<open>os.File\<close> opened on a folder's backing data file. \<open>invalid\<close> stands for a handle
  on which every read fails (nil or closed handle, failing device).
\<close>

record os_File =
  contents :: "byte list"
  invalid :: bool

datatype io_error = EOF | ErrInvalid | ErrNegativeOffset

text \<open>
  \<open>ReadAt(b, off)\<close> of \<open>os.File\<close> in the Go library, for a buffer of \<open>n\<close> bytes that is
  all zero when passed in: it reads \<open>n\<close> bytes starting at \<open>off\<close> and reports a non-nil
  error whenever fewer than \<open>n\<close> bytes were read (\<open>io.EOF\<close> at the end of the file).
  The result is the buffer after the call and the error.
\<close>

definition File_ReadAt :: "os_File \<Rightarrow> nat \<Rightarrow> int \<Rightarrow> byte list \<times> io_error option" where
  "File_ReadAt f n off =
     (if invalid f then (replicate n 0, Some ErrInvalid)
      else if off < 0 then (replicate n 0, Some ErrNegativeOffset)
      else (let got = take n (drop (nat off) (contents f))
            in (got @ replicate (n - length got) 0,
                if length got < n then Some EOF else None)))"

text \<open>
  Modelled from the spec: the declaration of \<open>storageSector\<close>, which is not part of the
  source. The fields \<open>storageFolder\<close> and \<open>index\<close> are the ones the source reads, with
  the types it reads them at (a key of \<open>sm.folders\<close>, the \<open>uint32\<close> passed to
  \<open>readSector\<close>); \<open>count\<close> is the reference count of the spec's sector record.
\<close>

record storageSector =
  storageFolder :: "16 word"
  index :: "32 word"
  count :: nat

text \<open>
  Modelled from the spec: the declaration of \<open>storageFolder\<close>, which is not part of the
  source. The fields \<open>atomicUnavailable\<close> and \<open>sectorData\<close> are the ones the source
  reads; the slot capacity, the used-slot count and the occupancy bitmap are those of
  the spec's folder record.
\<close>

record storageFolder =
  atomicUnavailable :: "64 word"
  sectorData :: os_File
  capacity :: nat
  usedSlots :: nat
  occupancy :: "bool list"

text \<open>
  The manager. \<open>'sid\<close> is the type \<open>sectorID\<close>, whose declaration is not part of the
  source; \<open>'p\<close> is the type of what is stored under \<open>persistDir\<close> (the write-ahead log
  file included). \<open>stopChan\<close> counts the values sent on the channel, \<open>wg\<close> is the counter
  of the wait group, \<open>sectorLocks\<close> is the set of identifiers whose sector lock is held.
\<close>

record ('sid, 'p) storageManager =
  sectorSalt :: "byte list"
  folders :: "16 word \<rightharpoonup> storageFolder"
  sectors :: "'sid \<rightharpoonup> storageSector"
  sectorLocks :: "'sid set"
  persistDir :: 'p
  stopChan :: nat
  atomicSwitch :: "64 word"
  wg :: int

text \<open>
  The methods the source calls and does not define (\<open>getSectorID\<close>, the two add paths,
  the two steps of the folder addition) are parameters of the operation that calls
  them. Of \<open>getSectorID\<close> the model takes from the spec that it is a hash of the salt
  of the manager and of the merkle root, and of nothing else.
\<close>

section \<open>The operations of the source\<close>

text \<open>\<open>sm.wg.Add(1)\<close> and the deferred \<open>sm.wg.Done()\<close>.\<close>

definition wg_Add :: "('sid, 'p) storageManager \<Rightarrow> ('sid, 'p) storageManager" where
  "wg_Add sm = sm\<lparr>wg := wg sm + 1\<rparr>"

definition wg_Done :: "('sid, 'p) storageManager \<Rightarrow> ('sid, 'p) storageManager" where
  "wg_Done sm = sm\<lparr>wg := wg sm - 1\<rparr>"

text \<open>
  Modelled from the spec: \<open>lockSector\<close>, whose body is not part of the source
  (section 4.2): \<open>lock(sectorID)\<close> "blocks until exclusive access granted". In a
  sequential run nobody else can release a lock, so locking an identifier whose lock
  is held never returns: the result is \<open>None\<close>.
\<close>

definition lockSector ::
  "'sid \<Rightarrow> ('sid, 'p) storageManager \<Rightarrow> ('sid, 'p) storageManager option" where
  "lockSector sid sm =
     (if sid \<in> sectorLocks sm then None
      else Some (sm\<lparr>sectorLocks := insert sid (sectorLocks sm)\<rparr>))"

text \<open>
  Modelled from the spec: \<open>unlockSector\<close>, whose body is not part of the source
  (section 4.2): \<open>unlock(sectorID)\<close> releases the lock.
\<close>

definition unlockSector ::
  "'sid \<Rightarrow> ('sid, 'p) storageManager \<Rightarrow> ('sid, 'p) storageManager" where
  "unlockSector sid sm = sm\<lparr>sectorLocks := sectorLocks sm - {sid}\<rparr>"

text \<open>
  The calls deferred by \<open>AddSector\<close> and \<open>ReadSector\<close> run at the return in reverse
  order: \<open>sm.unlockSector(id)\<close>, then \<open>sm.wg.Done()\<close>.
\<close>

definition deferred :: "'sid \<Rightarrow> ('sid, 'p) storageManager \<Rightarrow> ('sid, 'p) storageManager" where
  "deferred sid sm = wg_Done (unlockSector sid sm)"

text \<open>
  \<open>AddStorageFolder\<close>: the switch is checked first; then the call registers in the wait
  group, prepares, and processes only when the preparation gave a folder and no error.
\<close>

definition AddStorageFolder ::
  "(string \<Rightarrow> 64 word \<Rightarrow> ('sid, 'p) storageManager
       \<Rightarrow> (storageFolder option \<times> error option) \<times> ('sid, 'p) storageManager)
     \<Rightarrow> (storageFolder \<Rightarrow> ('sid, 'p) storageManager
           \<Rightarrow> error option \<times> ('sid, 'p) storageManager)
     \<Rightarrow> string \<Rightarrow> 64 word \<Rightarrow> ('sid, 'p) storageManager
     \<Rightarrow> error option \<times> ('sid, 'p) storageManager" where
  "AddStorageFolder prepareAddStorageFolder processAddStorageFolder path size' sm =
     (if atomicSwitch sm = 1 then (Some ErrShutDown, sm)
      else (let sm1 = wg_Add sm in
            case prepareAddStorageFolder path size' sm1 of
              ((None, err), sm2) \<Rightarrow> (err, wg_Done sm2)
            | ((Some sf, Some e), sm2) \<Rightarrow> (Some e, wg_Done sm2)
            | ((Some sf, None), sm2) \<Rightarrow>
                (case processAddStorageFolder sf sm2 of
                   (err, sm3) \<Rightarrow> (err, wg_Done sm3))))"

text \<open>
  \<open>AddSector\<close>. The lookup in \<open>sm.sectors\<close> is made under \<open>sm.wal.lock\<close>, which is taken
  and given back around it and leaves no trace in a sequential run. The result is
  \<open>None\<close> when the call never returns.
\<close>

definition AddSector ::
  "(byte list \<Rightarrow> byte list \<Rightarrow> 'sid)
     \<Rightarrow> ('sid \<Rightarrow> storageSector \<Rightarrow> ('sid, 'p) storageManager
           \<Rightarrow> error option \<times> ('sid, 'p) storageManager)
     \<Rightarrow> ('sid \<Rightarrow> byte list \<Rightarrow> ('sid, 'p) storageManager
           \<Rightarrow> error option \<times> ('sid, 'p) storageManager)
     \<Rightarrow> byte list \<Rightarrow> byte list \<Rightarrow> ('sid, 'p) storageManager
     \<Rightarrow> (error option \<times> ('sid, 'p) storageManager) option" where
  "AddSector getSectorID addVirtualSector addStorageSector root sectorData' sm =
     (if atomicSwitch sm = 1 then Some (Some ErrShutDown, sm)
      else (let sm1 = wg_Add sm;
                sid = getSectorID (sectorSalt sm1) root
            in case lockSector sid sm1 of
                 None \<Rightarrow> None
               | Some sm2 \<Rightarrow>
                   (case (case sectors sm2 sid of
                            Some sector \<Rightarrow> addVirtualSector sid sector sm2
                          | None \<Rightarrow> addStorageSector sid sectorData' sm2) of
                      (err, sm3) \<Rightarrow> Some (err, deferred sid sm3))))"

text \<open>
  \<open>readSector\<close>: a buffer of \<open>SectorSize\<close> bytes, filled by \<open>ReadAt\<close> at the offset
  \<open>int64(uint64(sectorIndex)*SectorSize)\<close>. \<open>SectorSize\<close> is a \<open>uint64\<close> of the package
  whose declaration is not part of the source: it is the first parameter.
\<close>

definition readSector :: "64 word \<Rightarrow> os_File \<Rightarrow> 32 word \<Rightarrow> error + byte list" where
  "readSector SectorSize file sectorIndex =
     (case File_ReadAt file (unat SectorSize)
             (sint ((ucast sectorIndex :: 64 word) * SectorSize)) of
        (b, Some e) \<Rightarrow> Inl ErrReadSector
      | (b, None) \<Rightarrow> Inr b)"

text \<open>
  \<open>ReadSector\<close>. Both map lookups are made before either result is tested: when the
  sector is missing, \<open>ss\<close> is the zero value of \<open>storageSector\<close> and the folder looked up
  is folder 0.
\<close>

definition zero_storageSector :: storageSector where
  "zero_storageSector = \<lparr>storageFolder = 0, index = 0, count = 0\<rparr>"

definition ReadSector ::
  "(byte list \<Rightarrow> byte list \<Rightarrow> 'sid) \<Rightarrow> 64 word \<Rightarrow> byte list \<Rightarrow> ('sid, 'p) storageManager
     \<Rightarrow> ((error + byte list) \<times> ('sid, 'p) storageManager) option" where
  "ReadSector getSectorID SectorSize root sm =
     (if atomicSwitch sm = 1 then Some (Inl ErrShutDown, sm)
      else (let sm1 = wg_Add sm;
                sid = getSectorID (sectorSalt sm1) root
            in case lockSector sid sm1 of
                 None \<Rightarrow> None
               | Some sm2 \<Rightarrow>
                   (let exists1 = (sectors sm2 sid \<noteq> None);
                        ss = (case sectors sm2 sid of
                                Some s \<Rightarrow> s | None \<Rightarrow> zero_storageSector);
                        sf' = folders sm2 (storageFolder ss);
                        res = (if \<not> exists1 then Inl ErrSectorMeta
                               else case sf' of
                                      None \<Rightarrow> Inl ErrLoadFolder
                                    | Some sf \<Rightarrow>
                                        if atomicUnavailable sf = 1 then Inl ErrOpenFolder
                                        else readSector SectorSize (sectorData sf) (index ss))
                    in Some (res, deferred sid sm2))))"

text \<open>
  \<open>Close\<close>. After the switch is set, the call sends on \<open>stopChan\<close> and waits on the wait
  group; both block on other goroutines. Their part is the parameter \<open>others\<close>: the
  manager state once the value sent has been received and the goroutines have run on,
  or \<open>None\<close> when the value is never received. The call returns when the counter of the
  wait group is zero, and does not return (\<open>None\<close>) otherwise.
\<close>

definition Close ::
  "(('sid, 'p) storageManager \<Rightarrow> ('sid, 'p) storageManager option)
     \<Rightarrow> ('sid, 'p) storageManager \<Rightarrow> (error option \<times> ('sid, 'p) storageManager) option" where
  "Close others sm =
     (if atomicSwitch sm = 1 then Some (Some ErrAlreadyClosed, sm)
      else (let sm1 = sm\<lparr>atomicSwitch := 1\<rparr>;
                sm2 = sm1\<lparr>stopChan := stopChan sm1 + 1\<rparr>
            in case others sm2 of
                 None \<Rightarrow> None
               | Some sm3 \<Rightarrow> if wg sm3 = 0 then Some (None, sm3) else None))"

text \<open>
  \<open>New\<close>: the manager made by \<open>newStorageManager\<close> (not part of the source: the first
  parameter) is returned as it is when it is nil or comes with an error; otherwise the
  maintenance goroutine is registered in the wait group and started. \<open>buildSetting\<close>
  fixes the settings of the package (\<open>SectorSize\<close> among them), which the model takes as
  parameters.
\<close>

definition New ::
  "('p \<Rightarrow> ('sid, 'p) storageManager option \<times> error option) \<Rightarrow> 'p
     \<Rightarrow> ('sid, 'p) storageManager option \<times> error option" where
  "New newStorageManager dir =
     (case newStorageManager dir of
        (None, err) \<Rightarrow> (None, err)
      | (Some sm, Some e) \<Rightarrow> (Some sm, Some e)
      | (Some sm, None) \<Rightarrow> (Some (wg_Add sm), None))"

section \<open>The commit protocol\<close>

text \<open>
  The write-ahead log, the persisted indexes, the two add paths, the startup replay and
  the maintenance goroutine are not part of the source; the tests of the storage
  manager are. Each definition of this section says what it is modelled from.
\<close>

text \<open>
  Modelled from the spec: the fault-injection points, which are not part of the source.
  "Fault-injection hooks exist at prepare and process boundaries", for the physical
  and the virtual add; the tests name them "physical prepare normal stop" and so on.
  A registered point stops the operation where it stands, as a kill of the process
  would, and the call returns no error.
\<close>

datatype fault_point = PhysicalPrepare | PhysicalProcess | VirtualPrepare | VirtualProcess

text \<open>
  Modelled from the spec: the update records of the WAL, which are not part of the
  source. They are those of section 4.5: "prepare" (the slot reservation) and
  "process" (write content + commit metadata) of a physical add, and the
  reference-count increment of a virtual add, which records the count before the
  increment; and the creation of a folder, which a folder addition logs.
\<close>

datatype 'sid update =
    ReserveSlot 'sid "16 word" nat
  | CommitSector 'sid storageSector
  | IncrementCount 'sid nat
  | CreateFolder "16 word"

text \<open>
  Modelled from the spec: a WAL transaction, which is not part of the source: "an
  ordered sequence of update records plus a terminal commit marker".
\<close>

record 'sid transaction =
  updates :: "'sid update list"
  committed :: bool

text \<open>
  Modelled from the spec: the durable record of a folder, which is not part of the
  source: "capacity, used count, occupancy bitmap" (section 6).
\<close>

record folderMeta =
  m_capacity :: nat
  m_usedSlots :: nat
  m_occupancy :: "bool list"

text \<open>
  Modelled from the spec: what is stored under the persist directory, which is not
  part of the source (section 6, persisted state layout): the salt, "generated once
  and persisted"; the durable index from sector identifier to sector record and from
  folder id to folder record; one backing data file per folder; the WAL file. The
  registration of a sector under its folder is the one the tests look up
  (\<open>makeFolderSectorKey\<close>).
\<close>

record 'sid disk =
  salt :: "byte list"
  sectorIndex :: "'sid \<rightharpoonup> storageSector"
  folderIndex :: "16 word \<rightharpoonup> folderMeta"
  folderSectors :: "(16 word \<times> 'sid) set"
  dataFiles :: "16 word \<rightharpoonup> byte list"
  walFile :: "'sid transaction list"

type_synonym 'sid manager = "('sid, 'sid disk) storageManager"

subsection \<open>Write-ahead log\<close>

text \<open>
  Modelled from the spec: \<open>append(transaction)\<close> of the WAL, which is not part of the
  source (section 4.1). It gives a handle: the position of the transaction in the log.
\<close>

definition appendTxn :: "'sid transaction \<Rightarrow> 'sid disk \<Rightarrow> nat \<times> 'sid disk" where
  "appendTxn t d = (length (walFile d), d\<lparr>walFile := walFile d @ [t]\<rparr>)"

text \<open>
  Modelled from the spec: the logging of one more record in a transaction, which is
  not part of the source ("prepare" then "process", "as two log records").
\<close>

definition appendUpdate :: "nat \<Rightarrow> 'sid update \<Rightarrow> 'sid disk \<Rightarrow> 'sid disk" where
  "appendUpdate k u d =
     (if k < length (walFile d)
      then d\<lparr>walFile := (walFile d)[k := (walFile d ! k)\<lparr>updates := updates (walFile d ! k) @ [u]\<rparr>]\<rparr>
      else d)"

text \<open>
  Modelled from the spec: \<open>markCommitted(handle)\<close> of the WAL, which is not part of the
  source (section 4.1). It writes the commit marker of the transaction.
\<close>

definition markCommitted :: "nat \<Rightarrow> 'sid disk \<Rightarrow> 'sid disk" where
  "markCommitted k d =
     (if k < length (walFile d)
      then d\<lparr>walFile := (walFile d)[k := (walFile d ! k)\<lparr>committed := True\<rparr>]\<rparr>
      else d)"

text \<open>
  Modelled from the spec: the dropping of a transaction from the log, which is not
  part of the source (a transaction without its marker is "discarded/rolled back").
\<close>

definition discard :: "nat \<Rightarrow> 'sid disk \<Rightarrow> 'sid disk" where
  "discard k d = d\<lparr>walFile := take k (walFile d) @ drop (Suc k) (walFile d)\<rparr>"

text \<open>
  Modelled from the spec: \<open>replay()\<close> of the WAL, which is not part of the source
  (section 4.1): the list of incomplete transactions, those whose commit marker is
  not written (section 3).
\<close>

definition replay :: "'sid transaction list \<Rightarrow> 'sid transaction list" where
  "replay w = filter (\<lambda>t. \<not> committed t) w"

subsection \<open>Storage folder\<close>

text \<open>
  Modelled from the spec: \<open>reserveSlot\<close> of a folder, which is not part of the source
  (section 4.3): first-fit over the occupancy bitmap, and no slot when none is free.
\<close>

fun reserveSlot :: "bool list \<Rightarrow> nat option" where
  "reserveSlot [] = None"
| "reserveSlot (b # bs) = (if \<not> b then Some 0 else map_option Suc (reserveSlot bs))"

text \<open>
  Modelled from the spec: \<open>writeAt(index, data)\<close> of a folder, which is not part of the
  source (section 4.3), on the contents \<open>c\<close> of the backing file: sectors are "written at
  \<open>index \<times> sectorSize\<close> offsets". As \<open>WriteAt\<close> of the Go library does, the write extends
  a file that is too short.
\<close>

definition writeAt :: "nat \<Rightarrow> nat \<Rightarrow> byte list \<Rightarrow> byte list \<Rightarrow> byte list" where
  "writeAt SectorSize idx data c =
     (let off = idx * SectorSize;
          c' = c @ replicate (off - length c) 0
      in take off c' @ data @ drop (off + length data) c')"

text \<open>
  Modelled from the spec: \<open>setUsedSectorSlot\<close>, named in section 4.3 and called by the
  tests, which is not part of the source: the bitmap mutator that marks a slot used
  and counts it.
\<close>

definition setUsedSectorSlot :: "nat \<Rightarrow> storageFolder \<Rightarrow> storageFolder" where
  "setUsedSectorSlot idx f =
     f\<lparr>occupancy := (occupancy f)[idx := True], usedSlots := usedSlots f + 1\<rparr>"

text \<open>
  Modelled from the spec: the durable record of an in-memory folder, which is not part
  of the source (the folder index is "mirrored by an on-disk index").
\<close>

definition metaOf :: "storageFolder \<Rightarrow> folderMeta" where
  "metaOf f = \<lparr>m_capacity = capacity f, m_usedSlots = usedSlots f, m_occupancy = occupancy f\<rparr>"

text \<open>
  Modelled from the spec: the choice of the folder of a physical add, which is not
  part of the source (section 4.5, step 5): the "first folder with \<open>used < capacity\<close>";
  first is read as: of smallest folder id, from \<open>i\<close> on.
\<close>

function chooseFolder :: "(16 word \<rightharpoonup> storageFolder) \<Rightarrow> nat \<Rightarrow> 16 word option" where
  "chooseFolder fs i =
     (if 2 ^ 16 \<le> i then None
      else case fs (of_nat i) of
             Some f \<Rightarrow> if usedSlots f < capacity f then Some (of_nat i)
                       else chooseFolder fs (Suc i)
           | None \<Rightarrow> chooseFolder fs (Suc i))"
  by pat_completeness auto
termination
  by (relation "measure (\<lambda>(fs, i). 2 ^ 16 - i)") auto

declare chooseFolder.simps [simp del]

subsection \<open>Rollback\<close>

text \<open>
  Modelled from the spec: the undoing of one logged record on the durable state, which
  is not part of the source (a transaction without its marker is rolled back, "with
  any partial on-disk effects treated as not-yet-visible"). Undoing a reservation
  frees the slot when the durable bitmap has it used; undoing the commit of the sector
  metadata removes the sector record and its registration; undoing an increment puts
  the recorded count back; undoing the creation of a folder removes the folder record,
  so that "a failed AddFolder leaves no partial folder visible" (the backing file,
  which no record names any more, stays behind).
\<close>

fun undoUpdate :: "'sid update \<Rightarrow> 'sid disk \<Rightarrow> 'sid disk" where
  "undoUpdate (ReserveSlot sid fid idx) d =
     (case folderIndex d fid of
        None \<Rightarrow> d
      | Some m \<Rightarrow>
          if idx < length (m_occupancy m) \<and> m_occupancy m ! idx
          then d\<lparr>folderIndex := (folderIndex d)(fid \<mapsto>
                   m\<lparr>m_occupancy := (m_occupancy m)[idx := False],
                     m_usedSlots := m_usedSlots m - 1\<rparr>)\<rparr>
          else d)"
| "undoUpdate (CommitSector sid sector) d =
     d\<lparr>sectorIndex := (sectorIndex d)(sid := None),
       folderSectors := folderSectors d - {(storageFolder sector, sid)}\<rparr>"
| "undoUpdate (IncrementCount sid old) d =
     (case sectorIndex d sid of
        None \<Rightarrow> d
      | Some s \<Rightarrow> d\<lparr>sectorIndex := (sectorIndex d)(sid \<mapsto> s\<lparr>count := old\<rparr>)\<rparr>)"
| "undoUpdate (CreateFolder fid) d = d\<lparr>folderIndex := (folderIndex d)(fid := None)\<rparr>"

text \<open>
  Modelled from the spec: the rollback of a transaction, which is not part of the
  source: its records are undone last to first.
\<close>

definition rollback :: "'sid transaction \<Rightarrow> 'sid disk \<Rightarrow> 'sid disk" where
  "rollback t d = foldr undoUpdate (updates t) d"

subsection \<open>The two add paths\<close>

text \<open>
  Modelled from the spec: \<open>addStorageSector\<close>, the physical add, whose body is not part
  of the source (section 4.5, step 5): choose the first folder with a free slot or
  fail with \<open>NoSpaceAvailable\<close>; reserve the slot (\<open>CapacityExhausted\<close> when the bitmap has
  none free); WAL-log "prepare" (the slot reservation), then "process" (write content
  + commit metadata); write the data to the slot and the metadata to the durable
  index; WAL-mark committed; update the in-memory bitmap, folder used-count and sector
  index. A failed write (\<open>WriteFailure\<close>) rolls the transaction back and marks the
  folder unavailable. \<open>fault\<close> is the fault-injection point registered, if any: the
  physical prepare point stands after the logging of "prepare", the physical process
  point after the durable writes and before the commit marker.
\<close>

definition addStorageSector ::
  "64 word \<Rightarrow> fault_point option \<Rightarrow> 'sid \<Rightarrow> byte list \<Rightarrow> 'sid manager
     \<Rightarrow> error option \<times> 'sid manager" where
  "addStorageSector SectorSize fault sid data sm =
     (case chooseFolder (folders sm) 0 of
        None \<Rightarrow> (Some ErrNoSpaceAvailable, sm)
      | Some fid \<Rightarrow>
         (case folders sm fid of
            None \<Rightarrow> (Some ErrNoSpaceAvailable, sm)
          | Some f \<Rightarrow>
             (case reserveSlot (occupancy f) of
                None \<Rightarrow> (Some ErrCapacityExhausted, sm)
              | Some idx \<Rightarrow>
                 (case appendTxn \<lparr>updates = [ReserveSlot sid fid idx], committed = False\<rparr>
                         (persistDir sm) of
                    (k, d1) \<Rightarrow>
                      if fault = Some PhysicalPrepare then (None, sm\<lparr>persistDir := d1\<rparr>)
                      else
                       (let sector = \<lparr>storageFolder = fid, index = of_nat idx, count = 1\<rparr>;
                            d2 = appendUpdate k (CommitSector sid sector) d1
                        in if invalid (sectorData f)
                           then (Some ErrWriteFailure,
                                 sm\<lparr>persistDir := discard k (rollback (walFile d2 ! k) d2),
                                    folders := (folders sm)(fid \<mapsto> f\<lparr>atomicUnavailable := 1\<rparr>)\<rparr>)
                           else
                            (let c = writeAt (unat SectorSize) idx data (contents (sectorData f));
                                 f' = setUsedSectorSlot idx
                                        (f\<lparr>sectorData := (sectorData f)\<lparr>contents := c\<rparr>\<rparr>);
                                 d3 = d2\<lparr>dataFiles := (dataFiles d2)(fid \<mapsto> c),
                                         sectorIndex := (sectorIndex d2)(sid \<mapsto> sector),
                                         folderIndex := (folderIndex d2)(fid \<mapsto> metaOf f'),
                                         folderSectors := insert (fid, sid) (folderSectors d2)\<rparr>
                             in if fault = Some PhysicalProcess
                                then (None, sm\<lparr>persistDir := d3\<rparr>)
                                else (None,
                                      sm\<lparr>persistDir := markCommitted k d3,
                                         folders := (folders sm)(fid \<mapsto> f'),
                                         sectors := (sectors sm)(sid \<mapsto> sector)\<rparr>)))))))"

text \<open>
  Modelled from the spec: \<open>addVirtualSector\<close>, the virtual add, whose body is not part of
  the source (section 4.5, step 4): "WAL-log reference-count increment; update index;
  done", with no write of content. The virtual prepare point stands after the logging,
  the virtual process point after the durable increment and before the commit marker.
\<close>

definition addVirtualSector ::
  "fault_point option \<Rightarrow> 'sid \<Rightarrow> storageSector \<Rightarrow> 'sid manager
     \<Rightarrow> error option \<times> 'sid manager" where
  "addVirtualSector fault sid sector sm =
     (case appendTxn \<lparr>updates = [IncrementCount sid (count sector)], committed = False\<rparr>
             (persistDir sm) of
        (k, d1) \<Rightarrow>
          if fault = Some VirtualPrepare then (None, sm\<lparr>persistDir := d1\<rparr>)
          else
           (let sector' = sector\<lparr>count := count sector + 1\<rparr>;
                d2 = d1\<lparr>sectorIndex := (sectorIndex d1)(sid \<mapsto> sector')\<rparr>
            in if fault = Some VirtualProcess then (None, sm\<lparr>persistDir := d2\<rparr>)
               else (None,
                     sm\<lparr>persistDir := markCommitted k d2,
                        sectors := (sectors sm)(sid \<mapsto> sector')\<rparr>)))"

text \<open>
  \<open>addSector\<close> is \<open>AddSector\<close> of the source on the two add paths above; \<open>H\<close> is the salted
  hash that gives the sector identifier.
\<close>

definition addSector ::
  "(byte list \<Rightarrow> byte list \<Rightarrow> 'sid) \<Rightarrow> 64 word \<Rightarrow> fault_point option
     \<Rightarrow> byte list \<Rightarrow> byte list \<Rightarrow> 'sid manager \<Rightarrow> (error option \<times> 'sid manager) option" where
  "addSector H SectorSize fault root data sm =
     AddSector H (addVirtualSector fault) (addStorageSector SectorSize fault) root data sm"

subsection \<open>Adding a folder\<close>

text \<open>
  Modelled from the spec: the id given to a new folder, which is not part of the
  source and which the spec leaves open: the smallest folder id not in use, from \<open>i\<close>
  on.
\<close>

function freeFolderID :: "(16 word \<rightharpoonup> storageFolder) \<Rightarrow> nat \<Rightarrow> 16 word option" where
  "freeFolderID fs i =
     (if 2 ^ 16 \<le> i then None
      else case fs (of_nat i) of
             None \<Rightarrow> Some (of_nat i)
           | Some f \<Rightarrow> freeFolderID fs (Suc i))"
  by pat_completeness auto
termination
  by (relation "measure (\<lambda>(fs, i). 2 ^ 16 - i)") auto

declare freeFolderID.simps [simp del]

text \<open>
  Modelled from the spec: \<open>prepareAddStorageFolder\<close>, whose body is not part of the
  source. The source says of it: "check the validity of the folder path and size, and
  get record before process the adding operation"; the spec: "validates path/size",
  failing with \<open>InvalidPath\<close> or \<open>InsufficientSpace\<close>. Which paths and sizes are valid,
  neither says: the parameter \<open>validate\<close> gives the error, if there is one. The record
  is the one of a folder of \<open>size / SectorSize\<close> slots, none of them used (the file is
  "allocated/truncated to capacity \<times> sector size"), whose file is not created yet. A
  folder has no more slots than a \<open>uint32\<close> slot index addresses.
\<close>

definition prepareAddStorageFolder ::
  "(string \<Rightarrow> 64 word \<Rightarrow> 'sid manager \<Rightarrow> error option) \<Rightarrow> 64 word \<Rightarrow> string \<Rightarrow> 64 word
     \<Rightarrow> 'sid manager \<Rightarrow> (storageFolder option \<times> error option) \<times> 'sid manager" where
  "prepareAddStorageFolder validate SectorSize path size' sm =
     (case validate path size' sm of
        Some e \<Rightarrow> ((None, Some e), sm)
      | None \<Rightarrow>
         (let cap = unat size' div unat SectorSize
          in if 2 ^ 32 < cap then ((None, Some ErrInsufficientSpace), sm)
             else ((Some \<lparr>atomicUnavailable = 0,
                          sectorData = \<lparr>contents = [], invalid = True\<rparr>,
                          capacity = cap, usedSlots = 0,
                          occupancy = replicate cap False\<rparr>, None), sm)))"

text \<open>
  Modelled from the spec: \<open>processAddStorageFolder\<close>, whose body is not part of the
  source. The source says of it: "do file creation and truncation, after all things
  done as expected, operation would be recorded in wal, and ready for final commit";
  the spec: "preallocates the backing file, WAL-logs folder creation, updates Folder
  Index". The file is created with \<open>capacity \<times> SectorSize\<close> zero bytes, the creation is
  logged, the durable folder record is written, the commit marker is written, and the
  in-memory folder index is updated. With no folder id left the addition fails.
\<close>

definition processAddStorageFolder ::
  "64 word \<Rightarrow> storageFolder \<Rightarrow> 'sid manager \<Rightarrow> error option \<times> 'sid manager" where
  "processAddStorageFolder SectorSize sf sm =
     (case freeFolderID (folders sm) 0 of
        None \<Rightarrow> (Some ErrInsufficientSpace, sm)
      | Some fid \<Rightarrow>
         (let c = replicate (capacity sf * unat SectorSize) 0;
              f = sf\<lparr>sectorData := \<lparr>contents = c, invalid = False\<rparr>\<rparr>;
              d1 = (persistDir sm)\<lparr>dataFiles := (dataFiles (persistDir sm))(fid \<mapsto> c)\<rparr>
          in case appendTxn \<lparr>updates = [CreateFolder fid], committed = False\<rparr> d1 of
               (k, d2) \<Rightarrow>
                 (let d3 = d2\<lparr>folderIndex := (folderIndex d2)(fid \<mapsto> metaOf f)\<rparr>
                  in (None, sm\<lparr>persistDir := markCommitted k d3,
                               folders := (folders sm)(fid \<mapsto> f)\<rparr>))))"

text \<open>
  \<open>addStorageFolder\<close> is \<open>AddStorageFolder\<close> of the source on the two steps above.
\<close>

definition addStorageFolder ::
  "(string \<Rightarrow> 64 word \<Rightarrow> 'sid manager \<Rightarrow> error option) \<Rightarrow> 64 word \<Rightarrow> string \<Rightarrow> 64 word
     \<Rightarrow> 'sid manager \<Rightarrow> error option \<times> 'sid manager" where
  "addStorageFolder validate SectorSize path size' sm =
     AddStorageFolder (prepareAddStorageFolder validate SectorSize)
       (processAddStorageFolder SectorSize) path size' sm"

subsection \<open>Startup replay\<close>

text \<open>
  Modelled from the spec: the startup replay on the durable state, which is not part
  of the source: it "opens the WAL, obtains incomplete transactions, and re-applies or
  discards each according to whether its commit marker is present". A transaction
  without its commit marker is rolled back and dropped from the log, the latest
  first. A transaction with its marker is complete: the marker is written after the
  durable effects, so there is nothing left to apply. Where section 4.5 speaks of
  re-attempting the write of a stopped physical add, section 8 and the tests have the
  add rolled back; the model follows these.
\<close>

definition recover :: "'sid disk \<Rightarrow> 'sid disk" where
  "recover d = (foldr rollback (replay (walFile d)) d)\<lparr>walFile := filter committed (walFile d)\<rparr>"

text \<open>
  Modelled from the spec: the opening of a folder at startup, which is not part of the
  source: the in-memory record is the durable one with a handle on the backing file;
  a folder whose file is not there is flagged unavailable.
\<close>

definition openFolder :: "folderMeta \<Rightarrow> byte list option \<Rightarrow> storageFolder" where
  "openFolder m file =
     \<lparr>atomicUnavailable = (case file of None \<Rightarrow> 1 | Some c \<Rightarrow> 0),
      sectorData = (case file of None \<Rightarrow> \<lparr>contents = [], invalid = True\<rparr>
                                | Some c \<Rightarrow> \<lparr>contents = c, invalid = False\<rparr>),
      capacity = m_capacity m, usedSlots = m_usedSlots m, occupancy = m_occupancy m\<rparr>"

text \<open>
  Modelled from the spec: \<open>newStorageManager\<close>, whose body is not part of the source:
  the startup replay, then the loading of the salt and of the in-memory indexes from
  the durable ones ("Manager startup can rebuild both"), with no lock held, the
  switch off and an empty wait group.
\<close>

definition newStorageManager :: "'sid disk \<Rightarrow> 'sid manager option \<times> error option" where
  "newStorageManager d =
     (let d' = recover d
      in (Some \<lparr>sectorSalt = salt d',
                folders = (\<lambda>fid. map_option (\<lambda>m. openFolder m (dataFiles d' fid))
                                    (folderIndex d' fid)),
                sectors = sectorIndex d',
                sectorLocks = {},
                persistDir = d',
                stopChan = 0,
                atomicSwitch = 0,
                wg = 0\<rparr>, None))"

subsection \<open>Stopping, restarting, shutting down\<close>

text \<open>
  \<open>restart\<close> is \<open>New(sm.persistDir)\<close> of the tests: a process stopped at a fault point
  leaves nothing but what is stored under the persist directory, and a new manager is
  constructed over it.
\<close>

definition restart :: "'sid manager \<Rightarrow> 'sid manager option \<times> error option" where
  "restart sm = New newStorageManager (persistDir sm)"

text \<open>
  The scenario of \<open>TestAddSectorStopRecoverPhysical\<close> and
  \<open>TestAddSectorsStopRecoverVirtual\<close>: an \<open>addSector\<close> stopped at the fault point \<open>p\<close>,
  then the restart.
\<close>

definition stopAndRestart ::
  "(byte list \<Rightarrow> byte list \<Rightarrow> 'sid) \<Rightarrow> 64 word \<Rightarrow> fault_point \<Rightarrow> byte list \<Rightarrow> byte list
     \<Rightarrow> 'sid manager \<Rightarrow> 'sid manager option" where
  "stopAndRestart H SectorSize p root data sm =
     (case addSector H SectorSize (Some p) root data sm of
        None \<Rightarrow> None
      | Some (err, sm1) \<Rightarrow> fst (restart sm1))"



text \<open>
  A history of the manager: calls of \<open>AddStorageFolder\<close>, \<open>AddSector\<close> and \<open>ReadSector\<close>,
  one after the other, each run to its return with no fault point registered,
  whatever it returns. The result is \<open>None\<close> when a call does not return.
\<close>

datatype call =
    CallAddStorageFolder string "64 word"
  | CallAddSector "byte list" "byte list"
  | CallReadSector "byte list"

fun run :: "(string \<Rightarrow> 64 word \<Rightarrow> 'sid manager \<Rightarrow> error option)
              \<Rightarrow> (byte list \<Rightarrow> byte list \<Rightarrow> 'sid) \<Rightarrow> 64 word \<Rightarrow> call list \<Rightarrow> 'sid manager
              \<Rightarrow> 'sid manager option" where
  "run validate H SectorSize [] sm = Some sm"
| "run validate H SectorSize (CallAddStorageFolder path size' # cs) sm =
     (case addStorageFolder validate SectorSize path size' sm of
        (err, sm') \<Rightarrow> run validate H SectorSize cs sm')"
| "run validate H SectorSize (CallAddSector root data # cs) sm =
     (case addSector H SectorSize None root data sm of
        None \<Rightarrow> None
      | Some (err, sm') \<Rightarrow> run validate H SectorSize cs sm')"
| "run validate H SectorSize (CallReadSector root # cs) sm =
     (case ReadSector H SectorSize root sm of
        None \<Rightarrow> None
      | Some (res, sm') \<Rightarrow> run validate H SectorSize cs sm')"

subsection \<open>The store at rest\<close>

text \<open>
  What the tests check of a store, as predicates. \<open>consistent\<close>: the in-memory salt,
  sector index and folder records are those of the durable index, the handle of a
  folder shows the contents of its data file, a folder has at most \<open>2 ^ 32\<close> slots
  (the slot index is a \<open>uint32\<close>), a sector is registered under a folder only when the
  durable index has it in that folder, and the WAL has no incomplete transaction.
  \<open>quiescent\<close>: moreover no sector lock is held.
\<close>

definition consistent :: "'sid manager \<Rightarrow> bool" where
  "consistent sm \<longleftrightarrow>
     sectorSalt sm = salt (persistDir sm)
   \<and> sectors sm = sectorIndex (persistDir sm)
   \<and> (\<forall>fid. map_option metaOf (folders sm fid) = folderIndex (persistDir sm) fid)
   \<and> (\<forall>fid f. folders sm fid = Some f \<longrightarrow>
          dataFiles (persistDir sm) fid = Some (contents (sectorData f)))
   \<and> (\<forall>fid f. folders sm fid = Some f \<longrightarrow> length (occupancy f) \<le> 2 ^ 32)
   \<and> (\<forall>fid sid. (fid, sid) \<in> folderSectors (persistDir sm)
          \<longrightarrow> (\<exists>s. sectorIndex (persistDir sm) sid = Some s \<and> storageFolder s = fid))
   \<and> replay (walFile (persistDir sm)) = []"

definition quiescent :: "'sid manager \<Rightarrow> bool" where
  "quiescent sm \<longleftrightarrow> sectorLocks sm = {} \<and> consistent sm"

text \<open>
  The used-slot count and the occupancy bitmap of each folder, and the total of the
  used-slot counts (\<open>checkExpectStoredSectors\<close> of the tests).
\<close>

definition slots :: "'sid manager \<Rightarrow> 16 word \<Rightarrow> (nat \<times> bool list) option" where
  "slots sm fid = map_option (\<lambda>f. (usedSlots f, occupancy f)) (folders sm fid)"

definition usedSlotsTotal :: "'sid manager \<Rightarrow> nat" where
  "usedSlotsTotal sm =
     (\<Sum>fid\<in>UNIV. case folders sm fid of None \<Rightarrow> 0 | Some f \<Rightarrow> usedSlots f)"

text \<open>
  \<open>sectorAbsent\<close> (\<open>checkSectorNotExist\<close> of the tests): the lookup fails in memory and
  in the durable index, and no folder has the sector registered. \<open>sectorPresent\<close>
  (\<open>checkSectorExist\<close>): the sector record is in both indexes with reference count
  \<open>n\<close>, it is registered under its folder, and reading the sector gives \<open>data\<close>.
\<close>

definition sectorAbsent :: "'sid \<Rightarrow> 'sid manager \<Rightarrow> bool" where
  "sectorAbsent sid sm \<longleftrightarrow>
     sectors sm sid = None
   \<and> sectorIndex (persistDir sm) sid = None
   \<and> (\<forall>fid. (fid, sid) \<notin> folderSectors (persistDir sm))"

definition sectorPresent ::
  "(byte list \<Rightarrow> byte list \<Rightarrow> 'sid) \<Rightarrow> 64 word \<Rightarrow> byte list \<Rightarrow> byte list \<Rightarrow> nat
     \<Rightarrow> 'sid manager \<Rightarrow> bool" where
  "sectorPresent H SectorSize root data n sm \<longleftrightarrow>
     (\<exists>s. sectors sm (H (sectorSalt sm) root) = Some s
          \<and> sectorIndex (persistDir sm) (H (sectorSalt sm) root) = Some s
          \<and> count s = n
          \<and> (storageFolder s, H (sectorSalt sm) root) \<in> folderSectors (persistDir sm))
   \<and> ReadSector H SectorSize root sm = Some (Inr data, sm)"

text \<open>
  Notions used in the proofs. \<open>place\<close>: the folder, its record and the slot that a
  physical add picks, and \<open>placeError\<close>: the error of the add when there is none.
  \<open>restorable\<close>: what of \<open>consistent\<close> the rollback of a physical add of \<open>sid\<close> depends
  on. \<open>idle\<close>: a running manager between two calls, with the maintenance goroutine
  alone in the wait group.
\<close>

definition place :: "'sid manager \<Rightarrow> (16 word \<times> storageFolder \<times> nat) option" where
  "place sm =
     (case chooseFolder (folders sm) 0 of
        None \<Rightarrow> None
      | Some fid \<Rightarrow>
         (case folders sm fid of
            None \<Rightarrow> None
          | Some f \<Rightarrow>
             (case reserveSlot (occupancy f) of
                None \<Rightarrow> None
              | Some idx \<Rightarrow> Some (fid, f, idx))))"

definition placeError :: "'sid manager \<Rightarrow> error" where
  "placeError sm =
     (case chooseFolder (folders sm) 0 of
        None \<Rightarrow> ErrNoSpaceAvailable
      | Some fid \<Rightarrow>
         (case folders sm fid of
            None \<Rightarrow> ErrNoSpaceAvailable
          | Some f \<Rightarrow> ErrCapacityExhausted))"

definition restorable :: "'sid \<Rightarrow> 'sid manager \<Rightarrow> bool" where
  "restorable sid sm \<longleftrightarrow>
     replay (walFile (persistDir sm)) = []
   \<and> sectorIndex (persistDir sm) sid = None
   \<and> (\<forall>fid. (fid, sid) \<notin> folderSectors (persistDir sm))
   \<and> (\<forall>fid. map_option metaOf (folders sm fid) = folderIndex (persistDir sm) fid)"


subsection \<open>An operation in flight\<close>

text \<open>
  Modelled from the spec: an \<open>AddSector\<close> in flight, for which the source has no data
  structure: the call has passed the test of the switch, is registered in the wait
  group, holds the lock of its sector and waits at one of the logged boundaries for
  its input or output to go on ("AddSector and AddFolder block on ... file write/fsync
  I/O, WAL append I/O"). What the call holds there: the point, the sector identifier,
  the handle of its transaction and, for a physical add, the data, the folder and the
  slot, for a virtual add, the sector record it found.
\<close>

datatype 'sid pendingAdd =
    PendingPhysical fault_point 'sid "byte list" nat "16 word" nat
  | PendingVirtual fault_point 'sid nat storageSector

fun pendingSector :: "'sid pendingAdd \<Rightarrow> 'sid" where
  "pendingSector (PendingPhysical p sid data k fid idx) = sid"
| "pendingSector (PendingVirtual p sid k sector) = sid"

text \<open>
  Modelled from the spec: the run of \<open>AddSector\<close> up to the point \<open>p\<close>, where it waits.
  The state is the one in which a stop at \<open>p\<close> leaves the add path, before the deferred
  calls of \<open>AddSector\<close>: the operation has not returned. There is no such state
  (\<open>None\<close>) when the call is rejected or waits for the lock, when \<open>p\<close> is not a point of
  the path that the call takes, or when the call fails before it reaches \<open>p\<close>.
\<close>

definition beginAddSector ::
  "(byte list \<Rightarrow> byte list \<Rightarrow> 'sid) \<Rightarrow> 64 word \<Rightarrow> fault_point \<Rightarrow> byte list \<Rightarrow> byte list
     \<Rightarrow> 'sid manager \<Rightarrow> ('sid pendingAdd \<times> 'sid manager) option" where
  "beginAddSector H SectorSize p root data sm =
     (if atomicSwitch sm = 1 then None
      else (let sm1 = wg_Add sm;
                sid = H (sectorSalt sm1) root
            in case lockSector sid sm1 of
                 None \<Rightarrow> None
               | Some sm2 \<Rightarrow>
                   (let k = length (walFile (persistDir sm2))
                    in case sectors sm2 sid of
                         Some sector \<Rightarrow>
                           if p = VirtualPrepare \<or> p = VirtualProcess
                           then Some (PendingVirtual p sid k sector,
                                      snd (addVirtualSector (Some p) sid sector sm2))
                           else None
                       | None \<Rightarrow>
                           (case place sm2 of
                              None \<Rightarrow> None
                            | Some (fid, f, idx) \<Rightarrow>
                                if p = PhysicalPrepare
                                   \<or> (p = PhysicalProcess \<and> \<not> invalid (sectorData f))
                                then Some (PendingPhysical p sid data k fid idx,
                                           snd (addStorageSector SectorSize (Some p) sid data sm2))
                                else None))))"

text \<open>
  Modelled from the spec: the rest of the add path from the point where the call
  waits, which is the rest of \<open>addStorageSector\<close> and of \<open>addVirtualSector\<close> above. From
  the physical prepare point: log "process", write the data and the metadata, or roll
  back when the write fails; from the physical process point, where these are
  written: the commit marker and the in-memory indexes. From the virtual prepare
  point: the durable increment; from the virtual process point, where it is made: the
  commit marker and the in-memory index.
\<close>

fun resumeAddSector :: "64 word \<Rightarrow> 'sid pendingAdd \<Rightarrow> 'sid manager
                          \<Rightarrow> error option \<times> 'sid manager" where
  "resumeAddSector SectorSize (PendingPhysical p sid data k fid idx) sm =
     (case folders sm fid of
        None \<Rightarrow> (Some ErrNoSpaceAvailable, sm)
      | Some f \<Rightarrow>
         (let sector = \<lparr>storageFolder = fid, index = of_nat idx, count = 1\<rparr>;
              c = writeAt (unat SectorSize) idx data (contents (sectorData f));
              f' = setUsedSectorSlot idx (f\<lparr>sectorData := (sectorData f)\<lparr>contents := c\<rparr>\<rparr>);
              d1 = persistDir sm
          in if p = PhysicalPrepare
             then (let d2 = appendUpdate k (CommitSector sid sector) d1
                   in if invalid (sectorData f)
                      then (Some ErrWriteFailure,
                            sm\<lparr>persistDir := discard k (rollback (walFile d2 ! k) d2),
                               folders := (folders sm)(fid \<mapsto> f\<lparr>atomicUnavailable := 1\<rparr>)\<rparr>)
                      else (let d3 = d2\<lparr>dataFiles := (dataFiles d2)(fid \<mapsto> c),
                                        sectorIndex := (sectorIndex d2)(sid \<mapsto> sector),
                                        folderIndex := (folderIndex d2)(fid \<mapsto> metaOf f'),
                                        folderSectors := insert (fid, sid) (folderSectors d2)\<rparr>
                            in (None, sm\<lparr>persistDir := markCommitted k d3,
                                         folders := (folders sm)(fid \<mapsto> f'),
                                         sectors := (sectors sm)(sid \<mapsto> sector)\<rparr>)))
             else (None, sm\<lparr>persistDir := markCommitted k d1,
                          folders := (folders sm)(fid \<mapsto> f'),
                          sectors := (sectors sm)(sid \<mapsto> sector)\<rparr>)))"
| "resumeAddSector SectorSize (PendingVirtual p sid k sector) sm =
     (let sector' = sector\<lparr>count := count sector + 1\<rparr>;
          d1 = persistDir sm;
          d2 = (if p = VirtualPrepare
                then d1\<lparr>sectorIndex := (sectorIndex d1)(sid \<mapsto> sector')\<rparr>
                else d1)
      in (None, sm\<lparr>persistDir := markCommitted k d2,
                   sectors := (sectors sm)(sid \<mapsto> sector')\<rparr>))"

text \<open>
  The operation in flight runs on to its return: the rest of the add path, then the
  deferred calls of \<open>AddSector\<close>, which give the lock back and leave the wait group.
\<close>

definition finishAddSector :: "64 word \<Rightarrow> 'sid pendingAdd \<Rightarrow> 'sid manager
                                 \<Rightarrow> error option \<times> 'sid manager" where
  "finishAddSector SectorSize pend sm =
     (case resumeAddSector SectorSize pend sm of
        (err, sm') \<Rightarrow> (err, deferred (pendingSector pend) sm'))"


section \<open>A small store\<close>

text \<open>
  A store as the tests build it, at a small scale: sectors of two bytes, one folder
  with two slots, the first of which holds the sector of merkle root \<open>[5]\<close>; the hash
  appends the root to the salt. \<open>exampleManager\<close> is the manager that \<open>New\<close> constructs
  on \<open>exampleDisk\<close> (lemma \<open>example_New\<close> below).
\<close>

definition exampleHash :: "byte list \<Rightarrow> byte list \<Rightarrow> byte list" where
  "exampleHash s r = s @ r"

definition exampleDisk :: "byte list disk" where
  "exampleDisk =
     \<lparr>salt = [9],
      sectorIndex = [[9, 5] \<mapsto> \<lparr>storageFolder = 0, index = 0, count = 1\<rparr>],
      folderIndex = [0 \<mapsto> \<lparr>m_capacity = 2, m_usedSlots = 1, m_occupancy = [True, False]\<rparr>],
      folderSectors = {(0, [9, 5])},
      dataFiles = [0 \<mapsto> [1, 2, 0, 0]],
      walFile = []\<rparr>"

definition exampleManager :: "byte list manager" where
  "exampleManager =
     \<lparr>sectorSalt = [9],
      folders = [0 \<mapsto> \<lparr>atomicUnavailable = 0,
                        sectorData = \<lparr>contents = [1, 2, 0, 0], invalid = False\<rparr>,
                        capacity = 2, usedSlots = 1, occupancy = [True, False]\<rparr>],
      sectors = [[9, 5] \<mapsto> \<lparr>storageFolder = 0, index = 0, count = 1\<rparr>],
      sectorLocks = {},
      persistDir = exampleDisk,
      stopChan = 0,
      atomicSwitch = 0,
      wg = 1\<rparr>"



section \<open>Reading a sector\<close>

lemma unat_ucast_32_64: "unat (ucast (i :: 32 word) :: 64 word) = unat i"
proof -
  have "unat i < 2 ^ 32" using unsigned_less [of i] by simp
  then have "unat i < 2 ^ 64" by simp
  then have "take_bit 64 (unat i) = unat i" by (simp only: take_bit_nat_eq_self)
  then show ?thesis by (simp add: unsigned_ucast_eq)
qed

lemma offset_bound:
  assumes "unat (S :: 64 word) \<le> 2 ^ 31"
  shows "unat (i :: 32 word) * unat S < 2 ^ 63"
proof -
  have "unat i < 2 ^ 32" using unsigned_less [of i] by simp
  then have "unat i * unat S \<le> (2 ^ 32 - 1) * 2 ^ 31"
    using assms by (intro mult_le_mono) simp_all
  then show ?thesis by simp
qed

text \<open>
  For a sector size of at most \<open>2 ^ 31\<close> bytes the product of the source does not wrap
  around and is not negative as an \<open>int64\<close>. The sector size of package storage,
  \<open>1 << 22\<close>, is in that range.
\<close>

lemma sint_offset:
  assumes "unat (S :: 64 word) \<le> 2 ^ 31"
  shows "sint ((ucast (i :: 32 word) :: 64 word) * S) = int (unat i * unat S)"
proof -
  let ?w = "(ucast i :: 64 word) * S"
  have b: "unat i * unat S < 2 ^ 63" by (rule offset_bound [OF assms])
  then have "unat (ucast i :: 64 word) * unat S < 2 ^ LENGTH(64)"
    by (simp add: unat_ucast_32_64)
  then have u: "unat ?w = unat i * unat S"
    by (simp add: unat_mult_lem [THEN iffD1] unat_ucast_32_64)
  have "uint ?w = int (unat ?w)" by simp
  then have ui: "uint ?w = int (unat i * unat S)" using u by (simp only:)
  have "sint ?w = signed_take_bit 63 (uint ?w)" by (simp add: sint_uint)
  also have "\<dots> = uint ?w"
  proof (rule signed_take_bit_int_eq_self)
    have "(0::int) \<le> uint ?w" by (rule uint_ge_0)
    moreover have "- (2 ^ 63) \<le> (0::int)" by simp
    ultimately show "- (2 ^ 63) \<le> uint ?w" by (rule order_trans [rotated])
    have "int (unat i * unat S) < int (2 ^ 63)" using b by (simp only: of_nat_less_iff)
    moreover have "int (2 ^ 63) = 2 ^ 63" by simp
    ultimately show "uint ?w < 2 ^ 63" by (simp only: ui)
  qed
  finally show ?thesis using ui by (simp only:)
qed

lemma File_ReadAt_nat:
  "File_ReadAt f n (int off) =
     (if invalid f then (replicate n 0, Some ErrInvalid)
      else if 0 < n \<and> length (contents f) < off + n
           then (take n (drop off (contents f))
                   @ replicate (n - length (take n (drop off (contents f)))) 0, Some EOF)
           else (take n (drop off (contents f)), None))"
  by (auto simp: File_ReadAt_def Let_def)

lemma readSector_eq:
  assumes "unat S \<le> 2 ^ 31"
  shows "readSector S f i =
     (if invalid f \<or> 0 < unat S \<and> length (contents f) < unat i * unat S + unat S
      then Inl ErrReadSector
      else Inr (take (unat S) (drop (unat i * unat S) (contents f))))"
proof -
  have "readSector S f i =
          (case File_ReadAt f (unat S) (int (unat i * unat S)) of
             (b, Some e) \<Rightarrow> Inl ErrReadSector | (b, None) \<Rightarrow> Inr b)"
    by (simp only: readSector_def sint_offset [OF assms])
  also have "\<dots> =
     (if invalid f \<or> 0 < unat S \<and> length (contents f) < unat i * unat S + unat S
      then Inl ErrReadSector
      else Inr (take (unat S) (drop (unat i * unat S) (contents f))))"
    by (simp only: File_ReadAt_nat) simp
  finally show ?thesis .
qed

lemma readSector_length: "readSector S f i = Inr b \<Longrightarrow> length b = unat S"
  by (auto simp: readSector_def File_ReadAt_def Let_def split: if_splits)

lemma ReadSector_running:
  assumes "atomicSwitch sm \<noteq> 1" and "H (sectorSalt sm) root \<notin> sectorLocks sm"
  shows "ReadSector H S root sm =
     Some (case sectors sm (H (sectorSalt sm) root) of
             None \<Rightarrow> Inl ErrSectorMeta
           | Some ss \<Rightarrow>
              (case folders sm (storageFolder ss) of
                 None \<Rightarrow> Inl ErrLoadFolder
               | Some sf \<Rightarrow>
                   if atomicUnavailable sf = 1 then Inl ErrOpenFolder
                   else readSector S (sectorData sf) (index ss)),
           sm)"
  using assms
  by (auto simp: ReadSector_def Let_def lockSector_def wg_Add_def wg_Done_def deferred_def
        unlockSector_def split: option.splits)

text \<open>
  C4. A \<open>ReadSector(root)\<close> call that the shutdown flag does not reject (and that finds
  the sector lock free) fails with the sector-not-found error when the identifier is
  not in the sector index, with a folder error when the owning folder is missing or
  flagged unavailable, with the read-failure error when the read fails (invalid handle,
  or fewer than \<open>SectorSize\<close> bytes in the file from the offset), and otherwise returns
  the \<open>SectorSize\<close> bytes of the backing file at byte offset \<open>index \<times> SectorSize\<close>. The
  manager is left as it was.
\<close>

theorem ReadSector_behaviour:
  assumes "atomicSwitch sm \<noteq> 1"
    and "H (sectorSalt sm) root \<notin> sectorLocks sm"
    and "unat S \<le> 2 ^ 31"
  shows "ReadSector H S root sm =
     Some (case sectors sm (H (sectorSalt sm) root) of
             None \<Rightarrow> Inl ErrSectorMeta
           | Some ss \<Rightarrow>
              (case folders sm (storageFolder ss) of
                 None \<Rightarrow> Inl ErrLoadFolder
               | Some sf \<Rightarrow>
                   if atomicUnavailable sf = 1 then Inl ErrOpenFolder
                   else if invalid (sectorData sf)
                           \<or> 0 < unat S
                             \<and> length (contents (sectorData sf))
                                 < unat (index ss) * unat S + unat S
                        then Inl ErrReadSector
                        else Inr (take (unat S)
                                    (drop (unat (index ss) * unat S)
                                       (contents (sectorData sf))))),
           sm)"
  by (simp only: ReadSector_running [where H = H and sm = sm and root = root, OF assms(1,2)]
        readSector_eq [OF assms(3)])

theorem ReadSector_behaviour_witness:
  "atomicSwitch exampleManager \<noteq> 1
   \<and> exampleHash (sectorSalt exampleManager) [5] \<notin> sectorLocks exampleManager
   \<and> unat (2 :: 64 word) \<le> 2 ^ 31
   \<and> ReadSector exampleHash 2 [5] exampleManager = Some (Inr [1, 2], exampleManager)"
proof -
  have h1: "atomicSwitch exampleManager \<noteq> 1"
    by (simp add: exampleManager_def)
  have h2: "exampleHash (sectorSalt exampleManager) [5] \<notin> sectorLocks exampleManager"
    by (simp add: exampleManager_def)
  have h3: "unat (2 :: 64 word) \<le> 2 ^ 31" by simp
  have "ReadSector exampleHash 2 [5] exampleManager = Some (Inr [1, 2], exampleManager)"
    by (simp only: ReadSector_behaviour
          [where H = exampleHash and sm = exampleManager and root = "[5]", OF h1 h2 h3])
       (simp add: exampleManager_def exampleHash_def)
  with h1 h2 h3 show ?thesis by (simp only: simp_thms)
qed

text \<open>
  C9. When the sector identifier is not in the sector index, \<open>ReadSector\<close> returns the
  sector-meta-not-found error whatever the folder table \<open>fs\<close> is: the missing-sector
  test comes before the tests on the folder, and the result does not depend on any
  file.
\<close>

theorem ReadSector_missing_sector:
  assumes "atomicSwitch sm \<noteq> 1"
    and "H (sectorSalt sm) root \<notin> sectorLocks sm"
    and "sectors sm (H (sectorSalt sm) root) = None"
  shows "ReadSector H S root (sm\<lparr>folders := fs\<rparr>) = Some (Inl ErrSectorMeta, sm\<lparr>folders := fs\<rparr>)"
  using assms
  by (auto simp: ReadSector_def Let_def lockSector_def wg_Add_def wg_Done_def deferred_def
        unlockSector_def)

theorem ReadSector_missing_sector_witness:
  "atomicSwitch exampleManager \<noteq> 1
   \<and> exampleHash (sectorSalt exampleManager) [6] \<notin> sectorLocks exampleManager
   \<and> sectors exampleManager (exampleHash (sectorSalt exampleManager) [6]) = None
   \<and> ReadSector exampleHash 2 [6] (exampleManager\<lparr>folders := Map.empty\<rparr>)
       = Some (Inl ErrSectorMeta, exampleManager\<lparr>folders := Map.empty\<rparr>)"
proof -
  have h1: "atomicSwitch exampleManager \<noteq> 1"
    by (simp add: exampleManager_def)
  have h2: "exampleHash (sectorSalt exampleManager) [6] \<notin> sectorLocks exampleManager"
    by (simp add: exampleManager_def)
  have h3: "sectors exampleManager (exampleHash (sectorSalt exampleManager) [6]) = None"
    by (simp add: exampleManager_def exampleHash_def)
  from ReadSector_missing_sector
         [where H = exampleHash and sm = exampleManager and root = "[6]", OF h1 h2 h3]
       h1 h2 h3
  show ?thesis
    by (simp only: simp_thms)
qed

text \<open>
  C10. A successful \<open>ReadSector\<close> call returns exactly \<open>SectorSize\<close> bytes, whatever the
  manager holds and so whatever the length of the data once passed to \<open>AddSector\<close>;
  for a sector size of at most \<open>2 ^ 31\<close> they are the bytes of the backing file from
  the offset \<open>index \<times> SectorSize\<close> on.
\<close>

theorem ReadSector_fixed_size:
  assumes "ReadSector H S root sm = Some (Inr b, sm')"
  shows "length b = unat S
       \<and> (unat S \<le> 2 ^ 31 \<longrightarrow>
            (\<exists>ss sf. sectors sm (H (sectorSalt sm) root) = Some ss
                   \<and> folders sm (storageFolder ss) = Some sf
                   \<and> b = take (unat S)
                           (drop (unat (index ss) * unat S) (contents (sectorData sf)))))"
proof
  show "length b = unat S"
    using assms
    by (auto simp: ReadSector_def Let_def lockSector_def
          split: option.splits if_splits dest: readSector_length)
next
  show "unat S \<le> 2 ^ 31 \<longrightarrow>
          (\<exists>ss sf. sectors sm (H (sectorSalt sm) root) = Some ss
                 \<and> folders sm (storageFolder ss) = Some sf
                 \<and> b = take (unat S)
                         (drop (unat (index ss) * unat S) (contents (sectorData sf))))"
  proof
    assume S: "unat S \<le> 2 ^ 31"
    show "\<exists>ss sf. sectors sm (H (sectorSalt sm) root) = Some ss
                 \<and> folders sm (storageFolder ss) = Some sf
                 \<and> b = take (unat S)
                         (drop (unat (index ss) * unat S) (contents (sectorData sf)))"
      using assms
      by (auto simp: ReadSector_def Let_def lockSector_def wg_Add_def readSector_eq [OF S]
            split: option.splits if_splits)
  qed
qed

theorem ReadSector_fixed_size_witness:
  "ReadSector exampleHash 2 [5] exampleManager = Some (Inr [1, 2], exampleManager)
   \<and> unat (2 :: 64 word) \<le> 2 ^ 31
   \<and> length [1, 2 :: byte] = unat (2 :: 64 word)
   \<and> (\<exists>ss sf. sectors exampleManager (exampleHash (sectorSalt exampleManager) [5]) = Some ss
              \<and> folders exampleManager (storageFolder ss) = Some sf
              \<and> [1, 2] = take (unat (2 :: 64 word))
                            (drop (unat (index ss) * unat (2 :: 64 word))
                               (contents (sectorData sf))))"
proof -
  have h: "ReadSector exampleHash 2 [5] exampleManager = Some (Inr [1, 2], exampleManager)"
    by (simp add: ReadSector_def Let_def lockSector_def wg_Add_def wg_Done_def deferred_def
          unlockSector_def exampleManager_def exampleHash_def readSector_def File_ReadAt_def)
  have h2: "unat (2 :: 64 word) \<le> 2 ^ 31" by simp
  note fixed = ReadSector_fixed_size [OF h]
  from fixed [THEN conjunct1] fixed [THEN conjunct2, rule_format, OF h2] h h2
  show ?thesis by (intro conjI)
qed

section \<open>Adding a sector, shutting down\<close>

text \<open>
  C3. An \<open>AddSector(root, data)\<close> call that the shutdown flag does not reject (and that
  finds the sector lock free) computes the sector identifier from the root. When the
  identifier is in the sector index the call is the virtual add on the record found,
  followed by the deferred calls, and the physical add plays no part in it: replacing
  it by any \<open>f\<close> changes nothing. When the identifier is not in the index the call is
  the physical add, and the virtual add plays no part in it.
\<close>

theorem AddSector_dispatch:
  assumes "atomicSwitch sm \<noteq> 1"
    and "H (sectorSalt sm) root \<notin> sectorLocks sm"
  shows "(let sid = H (sectorSalt sm) root;
              sm2 = (wg_Add sm)\<lparr>sectorLocks := insert sid (sectorLocks sm)\<rparr>
          in case sectors sm sid of
               Some sector \<Rightarrow>
                 AddSector H addV addS root d sm
                   = Some (apsnd (deferred sid) (addV sid sector sm2))
                 \<and> (\<forall>f. AddSector H addV f root d sm = AddSector H addV addS root d sm)
             | None \<Rightarrow>
                 AddSector H addV addS root d sm
                   = Some (apsnd (deferred sid) (addS sid d sm2))
                 \<and> (\<forall>f. AddSector H f addS root d sm = AddSector H addV addS root d sm))"
  using assms
  by (auto simp: AddSector_def Let_def lockSector_def wg_Add_def apsnd_def map_prod_def
           split: option.splits prod.splits)

theorem AddSector_dispatch_witness:
  "atomicSwitch exampleManager \<noteq> 1
   \<and> exampleHash (sectorSalt exampleManager) [5] \<notin> sectorLocks exampleManager
   \<and> (\<forall>f. AddSector exampleHash (addVirtualSector None) f [5] [1, 2] exampleManager
           = AddSector exampleHash (addVirtualSector None) (addStorageSector 2 None)
               [5] [1, 2] exampleManager)"
proof -
  have h1: "atomicSwitch exampleManager \<noteq> 1"
    by (simp add: exampleManager_def)
  have h2: "exampleHash (sectorSalt exampleManager) [5] \<notin> sectorLocks exampleManager"
    by (simp add: exampleManager_def)
  have s: "sectors exampleManager (exampleHash (sectorSalt exampleManager) [5])
             = Some \<lparr>storageFolder = 0, index = 0, count = 1\<rparr>"
    by (simp add: exampleManager_def exampleHash_def)
  note dispatch = AddSector_dispatch
         [where H = exampleHash and sm = exampleManager and root = "[5]"
            and addV = "addVirtualSector None" and addS = "addStorageSector 2 None"
            and d = "[1, 2]", OF h1 h2, unfolded Let_def s option.case]
  from dispatch [THEN conjunct2] h1 h2 show ?thesis by (simp only: simp_thms)
qed

text \<open>
  C5. While the shutdown flag is set, \<open>AddStorageFolder\<close>, \<open>AddSector\<close> and \<open>ReadSector\<close>
  return the shut-down error and leave the manager as it is, and \<open>Close\<close> returns the
  already-closed error and leaves the manager as it is, \<open>stopChan\<close> included: nothing
  is sent to the maintenance thread, and the result does not depend on \<open>others\<close>, the
  goroutines a first \<open>Close\<close> waits for.
\<close>

theorem shutdown_rejection:
  assumes "atomicSwitch sm = 1"
  shows "AddStorageFolder prep proc path sz sm = (Some ErrShutDown, sm)
       \<and> AddSector H addV addS root d sm = Some (Some ErrShutDown, sm)
       \<and> ReadSector H S root sm = Some (Inl ErrShutDown, sm)
       \<and> Close others sm = Some (Some ErrAlreadyClosed, sm)"
  using assms by (simp add: AddStorageFolder_def AddSector_def ReadSector_def Close_def)

theorem shutdown_rejection_witness:
  "atomicSwitch (exampleManager\<lparr>atomicSwitch := 1\<rparr>) = 1
   \<and> AddStorageFolder (\<lambda>path size' sm. ((None, None), sm)) (\<lambda>sf sm. (None, sm))
         ''folder'' 16 (exampleManager\<lparr>atomicSwitch := 1\<rparr>)
       = (Some ErrShutDown, exampleManager\<lparr>atomicSwitch := 1\<rparr>)
   \<and> AddSector exampleHash (addVirtualSector None) (addStorageSector 2 None) [5] [1, 2]
         (exampleManager\<lparr>atomicSwitch := 1\<rparr>)
       = Some (Some ErrShutDown, exampleManager\<lparr>atomicSwitch := 1\<rparr>)
   \<and> ReadSector exampleHash 2 [5] (exampleManager\<lparr>atomicSwitch := 1\<rparr>)
       = Some (Inl ErrShutDown, exampleManager\<lparr>atomicSwitch := 1\<rparr>)
   \<and> Close Some (exampleManager\<lparr>atomicSwitch := 1\<rparr>)
       = Some (Some ErrAlreadyClosed, exampleManager\<lparr>atomicSwitch := 1\<rparr>)"
proof -
  have h: "atomicSwitch (exampleManager\<lparr>atomicSwitch := 1\<rparr>) = 1" by simp
  from shutdown_rejection [OF h] h show ?thesis by (simp only: simp_thms)
qed

text \<open>
  A \<open>Close\<close> that returns without error found the switch off, set it and sent on
  \<open>stopChan\<close> before the other goroutines ran on, and returns with the counter of the
  wait group at zero. The source of \<open>Close\<close> has no call on \<open>sm.wal\<close>.
\<close>

lemma Close_returns:
  assumes "Close others sm = Some (None, sm')"
  shows "atomicSwitch sm \<noteq> 1
       \<and> others (sm\<lparr>atomicSwitch := 1, stopChan := stopChan sm + 1\<rparr>) = Some sm'
       \<and> wg sm' = 0"
  using assms by (auto simp: Close_def Let_def split: if_splits option.splits)

section \<open>The commit protocol: rollback and invariants\<close>

subsection \<open>What a rollback leaves alone\<close>

lemma walFile_undoUpdates [simp]: "walFile (foldr undoUpdate us d) = walFile d"
proof (induction us)
  case Nil
  show ?case by simp
next
  case (Cons u us)
  then show ?case by (cases u) (auto split: option.splits)
qed

lemma salt_undoUpdates [simp]: "salt (foldr undoUpdate us d) = salt d"
proof (induction us)
  case Nil
  show ?case by simp
next
  case (Cons u us)
  then show ?case by (cases u) (auto split: option.splits)
qed

lemma dataFiles_undoUpdates [simp]: "dataFiles (foldr undoUpdate us d) = dataFiles d"
proof (induction us)
  case Nil
  show ?case by simp
next
  case (Cons u us)
  then show ?case by (cases u) (auto split: option.splits)
qed

lemma rollback_fields [simp]:
  "walFile (rollback t d) = walFile d"
  "salt (rollback t d) = salt d"
  "dataFiles (rollback t d) = dataFiles d"
  by (simp_all add: rollback_def)

subsection \<open>The two add paths, step by step\<close>

text \<open>
  The slot that first-fit reserves is a free slot of the bitmap, and the folder chosen
  is a folder of the manager with a free slot.
\<close>

lemma reserveSlot_free:
  "reserveSlot bs = Some idx \<Longrightarrow> idx < length bs \<and> \<not> bs ! idx"
  by (induction bs arbitrary: idx) (auto split: if_splits)

lemma chooseFolder_Some:
  "chooseFolder fs i = Some fid \<Longrightarrow> \<exists>f. fs fid = Some f \<and> usedSlots f < capacity f"
proof (induction fs i rule: chooseFolder.induct)
  case (1 fs i)
  then show ?case
    by (subst (asm) (3) chooseFolder.simps) (auto split: if_splits option.splits)
qed

lemma place_Some:
  assumes "place sm = Some (fid, f, idx)"
  shows "folders sm fid = Some f" "idx < length (occupancy f)" "\<not> occupancy f ! idx"
  using assms reserveSlot_free
  by (auto simp: place_def split: option.splits)

text \<open>
  The physical add in terms of \<open>place\<close>: the state at each fault point, after a failed
  write, and after the commit.
\<close>

lemma addStorageSector_place:
  "addStorageSector S fault sid data sm =
     (case place sm of
        None \<Rightarrow> (Some (placeError sm), sm)
      | Some (fid, f, idx) \<Rightarrow>
         (let d = persistDir sm;
              k = length (walFile d);
              d1 = d\<lparr>walFile := walFile d @ [\<lparr>updates = [ReserveSlot sid fid idx], committed = False\<rparr>]\<rparr>;
              sector = \<lparr>storageFolder = fid, index = of_nat idx, count = 1\<rparr>;
              t2 = \<lparr>updates = [ReserveSlot sid fid idx, CommitSector sid sector], committed = False\<rparr>;
              d2 = d\<lparr>walFile := walFile d @ [t2]\<rparr>;
              c = writeAt (unat S) idx data (contents (sectorData f));
              f' = setUsedSectorSlot idx (f\<lparr>sectorData := (sectorData f)\<lparr>contents := c\<rparr>\<rparr>);
              d3 = d2\<lparr>dataFiles := (dataFiles d)(fid \<mapsto> c),
                      sectorIndex := (sectorIndex d)(sid \<mapsto> sector),
                      folderIndex := (folderIndex d)(fid \<mapsto> metaOf f'),
                      folderSectors := insert (fid, sid) (folderSectors d)\<rparr>
          in if fault = Some PhysicalPrepare then (None, sm\<lparr>persistDir := d1\<rparr>)
             else if invalid (sectorData f)
             then (Some ErrWriteFailure,
                   sm\<lparr>persistDir := (rollback t2 d2)\<lparr>walFile := walFile d\<rparr>,
                      folders := (folders sm)(fid \<mapsto> f\<lparr>atomicUnavailable := 1\<rparr>)\<rparr>)
             else if fault = Some PhysicalProcess then (None, sm\<lparr>persistDir := d3\<rparr>)
             else (None, sm\<lparr>persistDir := d3\<lparr>walFile := walFile d @ [t2\<lparr>committed := True\<rparr>]\<rparr>,
                           folders := (folders sm)(fid \<mapsto> f'),
                           sectors := (sectors sm)(sid \<mapsto> sector)\<rparr>)))"
  by (auto simp: addStorageSector_def place_def placeError_def appendTxn_def appendUpdate_def
        markCommitted_def discard_def Let_def nth_append split: option.splits)


lemma place_irrelevant [simp]:
  "place (sm\<lparr>sectorLocks := L\<rparr>) = place sm"
  "place (sm\<lparr>wg := n\<rparr>) = place sm"
  by (simp_all add: place_def cong: option.case_cong)

lemma addVirtualSector_eq:
  "addVirtualSector fault sid sector sm =
     (let d = persistDir sm;
          t = \<lparr>updates = [IncrementCount sid (count sector)], committed = False\<rparr>;
          sector' = sector\<lparr>count := count sector + 1\<rparr>
      in if fault = Some VirtualPrepare
         then (None, sm\<lparr>persistDir := d\<lparr>walFile := walFile d @ [t]\<rparr>\<rparr>)
         else if fault = Some VirtualProcess
         then (None, sm\<lparr>persistDir := d\<lparr>walFile := walFile d @ [t],
                                        sectorIndex := (sectorIndex d)(sid \<mapsto> sector')\<rparr>\<rparr>)
         else (None, sm\<lparr>persistDir := d\<lparr>walFile := walFile d @ [t\<lparr>committed := True\<rparr>],
                                        sectorIndex := (sectorIndex d)(sid \<mapsto> sector')\<rparr>,
                       sectors := (sectors sm)(sid \<mapsto> sector')\<rparr>))"
  by (auto simp: addVirtualSector_def appendTxn_def markCommitted_def Let_def nth_append)

lemma addSector_running:
  assumes "atomicSwitch sm \<noteq> 1" and "H (sectorSalt sm) root \<notin> sectorLocks sm"
  shows "addSector H S fault root data sm =
     (let sid = H (sectorSalt sm) root;
          sm2 = (wg_Add sm)\<lparr>sectorLocks := insert sid (sectorLocks sm)\<rparr>
      in Some (apsnd (deferred sid)
                 (case sectors sm sid of
                    Some sector \<Rightarrow> addVirtualSector fault sid sector sm2
                  | None \<Rightarrow> addStorageSector S fault sid data sm2)))"
  using assms
  by (auto simp: addSector_def AddSector_def Let_def lockSector_def wg_Add_def apsnd_def
        map_prod_def split: option.splits prod.splits)

subsection \<open>Startup replay of a log with one incomplete transaction\<close>

lemma replay_append:
  "replay (w @ [t]) = replay w @ (if committed t then [] else [t])"
  by (simp add: replay_def)

lemma filter_committed_clean: "replay w = [] \<Longrightarrow> filter committed w = w"
  by (induction w) (auto simp: replay_def split: if_splits)

lemma recover_clean: "replay (walFile d) = [] \<Longrightarrow> recover d = d"
  by (simp add: recover_def filter_committed_clean)

lemma recover_pending:
  assumes "walFile d = w @ [t]" and "replay w = []" and "\<not> committed t"
  shows "recover d = (rollback t d)\<lparr>walFile := w\<rparr>"
  using assms by (simp add: recover_def replay_append filter_committed_clean)


subsection \<open>Slots, files and folder records\<close>

lemma nat_word32: "idx < 2 ^ 32 \<Longrightarrow> unat (of_nat idx :: 32 word) = idx"
  by (simp add: unat_of_nat take_bit_nat_eq_self)

lemma writeAt_read:
  "take (length data) (drop (idx * n) (writeAt n idx data c)) = data"
  by (simp add: writeAt_def Let_def)

lemma writeAt_length:
  "idx * n + length data \<le> length (writeAt n idx data c)"
  by (simp add: writeAt_def Let_def)

lemma metaOf_openFolder [simp]: "metaOf (openFolder m file) = m"
  by (simp add: metaOf_def openFolder_def)

lemma metaOf_fields [simp]:
  "m_capacity (metaOf f) = capacity f"
  "m_usedSlots (metaOf f) = usedSlots f"
  "m_occupancy (metaOf f) = occupancy f"
  by (simp_all add: metaOf_def)

lemma openFolder_fields [simp]:
  "capacity (openFolder m file) = m_capacity m"
  "usedSlots (openFolder m file) = m_usedSlots m"
  "occupancy (openFolder m file) = m_occupancy m"
  "atomicUnavailable (openFolder m (Some c)) = 0"
  "sectorData (openFolder m (Some c)) = \<lparr>contents = c, invalid = False\<rparr>"
  by (simp_all add: openFolder_def)

lemma metaOf_unavailable [simp]: "metaOf (f\<lparr>atomicUnavailable := x\<rparr>) = metaOf f"
  by (simp add: metaOf_def)

subsection \<open>A stopped add is undone at restart\<close>

lemma rollback_physical:
  "rollback \<lparr>updates = [ReserveSlot sid fid idx, CommitSector sid sector], committed = c\<rparr> d
     = undoUpdate (ReserveSlot sid fid idx) (undoUpdate (CommitSector sid sector) d)"
  "rollback \<lparr>updates = [ReserveSlot sid fid idx], committed = c\<rparr> d
     = undoUpdate (ReserveSlot sid fid idx) d"
  "rollback \<lparr>updates = [IncrementCount sid n], committed = c\<rparr> d
     = undoUpdate (IncrementCount sid n) d"
  by (simp_all add: rollback_def)

text \<open>
  After a physical add stopped at one of its two fault points, or failed, the startup
  replay gives back the durable state from before the add, but for the bytes of the
  data file in the slot that is free again.
\<close>

lemma physical_stop_recover:
  assumes r: "restorable sid sm"
    and p: "fault = Some PhysicalPrepare \<or> fault = Some PhysicalProcess"
  shows "recover (persistDir (snd (addStorageSector S fault sid data sm)))
           = (persistDir sm)\<lparr>dataFiles :=
                dataFiles (persistDir (snd (addStorageSector S fault sid data sm)))\<rparr>"
proof (cases "place sm")
  case None
  then show ?thesis using r
    by (simp add: addStorageSector_place restorable_def recover_clean)
next
  case (Some a)
  then obtain fid f idx where pl: "place sm = Some (fid, f, idx)" by (cases a) auto
  note f = place_Some [OF pl]
  let ?d = "persistDir sm"
  let ?w = "walFile ?d"
  from r f(1) have m: "folderIndex ?d fid = Some (metaOf f)"
    by (auto simp: restorable_def dest: spec [where x = fid])
  from r have w: "replay ?w = []"
    and s: "sectorIndex ?d sid = None"
    and g: "(fid, sid) \<notin> folderSectors ?d"
    by (auto simp: restorable_def)
  have occ: "m_occupancy (metaOf f) = occupancy f" by (simp add: metaOf_def)
  have lu: "(occupancy f)[idx := False] = occupancy f"
    using f(2,3) by (simp add: list_update_same_conv)
  let ?sector = "\<lparr>storageFolder = fid, index = of_nat idx, count = 1\<rparr>"
  let ?t1 = "\<lparr>updates = [ReserveSlot sid fid idx], committed = False\<rparr>"
  let ?t2 = "\<lparr>updates = [ReserveSlot sid fid idx, CommitSector sid ?sector], committed = False\<rparr>"
  show ?thesis
  proof (cases "fault = Some PhysicalPrepare")
    case True
    let ?d1 = "?d\<lparr>walFile := ?w @ [?t1]\<rparr>"
    have res: "persistDir (snd (addStorageSector S fault sid data sm)) = ?d1"
      using True by (simp add: addStorageSector_place pl Let_def)
    have "recover ?d1 = (rollback ?t1 ?d1)\<lparr>walFile := ?w\<rparr>"
      by (rule recover_pending [OF _ w]) simp_all
    also have "rollback ?t1 ?d1 = ?d1"
      using m f(2,3) by (simp add: rollback_physical occ)
    also have "?d1\<lparr>walFile := ?w\<rparr> = ?d\<lparr>dataFiles := dataFiles ?d1\<rparr>" by simp
    finally show ?thesis unfolding res .
  next
    case False
    with p have pp: "fault = Some PhysicalProcess" by simp
    show ?thesis
    proof (cases "invalid (sectorData f)")
      case True
      let ?d2 = "?d\<lparr>walFile := ?w @ [?t2]\<rparr>"
      have rb: "rollback ?t2 ?d2 = ?d2"
        using m f(2,3) s g by (simp add: rollback_physical occ fun_upd_idem)
      have res: "persistDir (snd (addStorageSector S fault sid data sm)) = ?d"
        using True pp rb by (simp add: addStorageSector_place pl Let_def)
      show ?thesis using w by (simp add: res recover_clean)
    next
      case False
      let ?c = "writeAt (unat S) idx data (contents (sectorData f))"
      let ?f' = "setUsedSectorSlot idx (f\<lparr>sectorData := (sectorData f)\<lparr>contents := ?c\<rparr>\<rparr>)"
      let ?d3 = "?d\<lparr>walFile := ?w @ [?t2],
                     dataFiles := (dataFiles ?d)(fid \<mapsto> ?c),
                     sectorIndex := (sectorIndex ?d)(sid \<mapsto> ?sector),
                     folderIndex := (folderIndex ?d)(fid \<mapsto> metaOf ?f'),
                     folderSectors := insert (fid, sid) (folderSectors ?d)\<rparr>"
      have res: "persistDir (snd (addStorageSector S fault sid data sm)) = ?d3"
        using False pp by (simp add: addStorageSector_place pl Let_def)
      have "recover ?d3 = (rollback ?t2 ?d3)\<lparr>walFile := ?w\<rparr>"
        by (rule recover_pending [OF _ w]) simp_all
      also have "rollback ?t2 ?d3 = ?d3\<lparr>sectorIndex := sectorIndex ?d,
                       folderIndex := folderIndex ?d, folderSectors := folderSectors ?d\<rparr>"
        using m f(2,3) s g
        by (simp add: rollback_physical metaOf_def setUsedSectorSlot_def lu fun_upd_idem)
      also have "\<dots>\<lparr>walFile := ?w\<rparr> = ?d\<lparr>dataFiles := (dataFiles ?d)(fid \<mapsto> ?c)\<rparr>"
        by simp
      finally have fin: "recover ?d3 = ?d\<lparr>dataFiles := (dataFiles ?d)(fid \<mapsto> ?c)\<rparr>" .
      have df: "dataFiles ?d3 = (dataFiles ?d)(fid \<mapsto> ?c)" by simp
      show ?thesis unfolding res df by (rule fin)
    qed
  qed
qed


text \<open>
  After a virtual add stopped at one of its two fault points, the startup replay gives
  back the durable state from before the add.
\<close>

lemma virtual_stop_recover:
  assumes w: "replay (walFile (persistDir sm)) = []"
    and s: "sectorIndex (persistDir sm) sid = Some sector"
    and p: "fault = Some VirtualPrepare \<or> fault = Some VirtualProcess"
  shows "recover (persistDir (snd (addVirtualSector fault sid sector sm))) = persistDir sm"
proof -
  let ?d = "persistDir sm"
  let ?w = "walFile ?d"
  let ?t = "\<lparr>updates = [IncrementCount sid (count sector)], committed = False\<rparr>"
  show ?thesis
  proof (cases "fault = Some VirtualPrepare")
    case True
    let ?d1 = "?d\<lparr>walFile := ?w @ [?t]\<rparr>"
    have res: "persistDir (snd (addVirtualSector fault sid sector sm)) = ?d1"
      using True by (simp add: addVirtualSector_eq Let_def)
    have "recover ?d1 = (rollback ?t ?d1)\<lparr>walFile := ?w\<rparr>"
      by (rule recover_pending [OF _ w]) simp_all
    also have "rollback ?t ?d1 = ?d1"
      using s by (simp add: rollback_physical fun_upd_idem)
    also have "?d1\<lparr>walFile := ?w\<rparr> = ?d" by simp
    finally show ?thesis unfolding res .
  next
    case False
    with p have pp: "fault = Some VirtualProcess" by simp
    let ?d2 = "?d\<lparr>walFile := ?w @ [?t],
                   sectorIndex := (sectorIndex ?d)(sid \<mapsto> sector\<lparr>count := count sector + 1\<rparr>)\<rparr>"
    have res: "persistDir (snd (addVirtualSector fault sid sector sm)) = ?d2"
      using pp by (simp add: addVirtualSector_eq Let_def)
    have "recover ?d2 = (rollback ?t ?d2)\<lparr>walFile := ?w\<rparr>"
      by (rule recover_pending [OF _ w]) simp_all
    also have "rollback ?t ?d2 = ?d2\<lparr>sectorIndex := sectorIndex ?d\<rparr>"
      using s by (simp add: rollback_physical fun_upd_idem)
    also have "\<dots>\<lparr>walFile := ?w\<rparr> = ?d" by simp
    finally show ?thesis unfolding res .
  qed
qed

subsection \<open>Invariants of the add\<close>

lemma addSector_eq:
  "addSector H S fault root data sm =
     (if atomicSwitch sm = 1 then Some (Some ErrShutDown, sm)
      else if H (sectorSalt sm) root \<in> sectorLocks sm then None
      else (let sid = H (sectorSalt sm) root;
                sm2 = (wg_Add sm)\<lparr>sectorLocks := insert sid (sectorLocks sm)\<rparr>
            in Some (apsnd (deferred sid)
                 (case sectors sm sid of
                    Some sector \<Rightarrow> addVirtualSector fault sid sector sm2
                  | None \<Rightarrow> addStorageSector S fault sid data sm2))))"
  by (auto simp: addSector_running Let_def)
     (auto simp: addSector_def AddSector_def Let_def lockSector_def wg_Add_def)

lemma consistent_cong:
  "folders sm' = folders sm \<Longrightarrow> sectors sm' = sectors sm \<Longrightarrow> persistDir sm' = persistDir sm
     \<Longrightarrow> sectorSalt sm' = sectorSalt sm \<Longrightarrow> consistent sm' = consistent sm"
  by (simp add: consistent_def)

lemma deferred_fields [simp]:
  "folders (deferred sid sm) = folders sm"
  "sectors (deferred sid sm) = sectors sm"
  "persistDir (deferred sid sm) = persistDir sm"
  "sectorLocks (deferred sid sm) = sectorLocks sm - {sid}"
  "atomicSwitch (deferred sid sm) = atomicSwitch sm"
  "sectorSalt (deferred sid sm) = sectorSalt sm"
  "stopChan (deferred sid sm) = stopChan sm"
  "wg (deferred sid sm) = wg sm - 1"
  by (simp_all add: deferred_def wg_Done_def unlockSector_def)



lemma consistent_registered:
  "consistent sm \<Longrightarrow> (fid, sid) \<in> folderSectors (persistDir sm)
     \<Longrightarrow> \<exists>s. sectorIndex (persistDir sm) sid = Some s \<and> storageFolder s = fid"
  unfolding consistent_def by blast

text \<open>Both add paths, run to their return, keep the store consistent.\<close>

lemma consistent_addVirtualSector:
  assumes c: "consistent sm" and s: "sectors sm sid = Some sector"
  shows "consistent (snd (addVirtualSector None sid sector sm))"
proof -
  from c s have d: "sectorIndex (persistDir sm) sid = Some sector"
    by (simp add: consistent_def)
  have reg: "storageFolder sector = fid" if "(fid, sid) \<in> folderSectors (persistDir sm)" for fid
    using consistent_registered [OF c that] d by auto
  show ?thesis
    using c d reg
    by (auto simp: consistent_def addVirtualSector_eq Let_def replay_append)
qed

lemma consistent_addStorageSector:
  assumes c: "consistent sm" and s: "sectors sm sid = None"
  shows "consistent (snd (addStorageSector S None sid data sm))"
proof (cases "place sm")
  case None
  then show ?thesis using c by (simp add: addStorageSector_place)
next
  case (Some a)
  then obtain fid f idx where pl: "place sm = Some (fid, f, idx)" by (cases a) auto
  note f = place_Some [OF pl]
  let ?d = "persistDir sm"
  from c f(1) have m: "folderIndex ?d fid = Some (metaOf f)"
    by (auto simp: consistent_def dest: spec [where x = fid])
  from c s have si: "sectorIndex ?d sid = None" by (simp add: consistent_def)
  from si have g: "(fid', sid) \<notin> folderSectors ?d" for fid'
    using consistent_registered [OF c, of fid' sid] by auto
  have occ: "m_occupancy (metaOf f) = occupancy f" by (simp add: metaOf_def)
  have lu: "(occupancy f)[idx := False] = occupancy f"
    using f(2,3) by (simp add: list_update_same_conv)
  let ?sector = "\<lparr>storageFolder = fid, index = of_nat idx, count = 1\<rparr>"
  let ?t2 = "\<lparr>updates = [ReserveSlot sid fid idx, CommitSector sid ?sector], committed = False\<rparr>"
  let ?d2 = "?d\<lparr>walFile := walFile ?d @ [?t2]\<rparr>"
  show ?thesis
  proof (cases "invalid (sectorData f)")
    case True
    have rb: "rollback ?t2 ?d2 = ?d2"
      using m f(2,3) si g by (simp add: rollback_physical occ fun_upd_idem)
    have "snd (addStorageSector S None sid data sm)
            = sm\<lparr>persistDir := ?d, folders := (folders sm)(fid \<mapsto> f\<lparr>atomicUnavailable := 1\<rparr>)\<rparr>"
      using True rb by (simp add: addStorageSector_place pl Let_def)
    then show ?thesis using c f(1) m
      by (auto simp: consistent_def)
  next
    case False
    show ?thesis
      using False c f si g
      by (auto simp: consistent_def addStorageSector_place pl Let_def replay_append
            setUsedSectorSlot_def)
  qed
qed



lemma quiescent_addSector:
  assumes q: "quiescent sm" and r: "addSector H S None root data sm = Some (e, sm')"
  shows "quiescent sm'"
proof (cases "atomicSwitch sm = 1")
  case True
  with r q show ?thesis by (simp add: addSector_eq)
next
  case False
  let ?sid = "H (sectorSalt sm) root"
  let ?sm2 = "(wg_Add sm)\<lparr>sectorLocks := insert ?sid (sectorLocks sm)\<rparr>"
  from q have l: "sectorLocks sm = {}" and c: "consistent sm" by (simp_all add: quiescent_def)
  have "consistent ?sm2 = consistent sm"
    by (rule consistent_cong) (simp_all add: wg_Add_def)
  with c have c2: "consistent ?sm2" by simp
  have s2: "sectors ?sm2 = sectors sm" by (simp add: wg_Add_def)
  show ?thesis
  proof (cases "sectors sm ?sid")
    case None
    with r False l have sm': "sm' = deferred ?sid (snd (addStorageSector S None ?sid data ?sm2))"
      by (auto simp: addSector_eq Let_def apsnd_def map_prod_def split: prod.splits)
    have "consistent (snd (addStorageSector S None ?sid data ?sm2))"
      by (rule consistent_addStorageSector [OF c2]) (simp add: s2 None)
    moreover have "sectorLocks (snd (addStorageSector S None ?sid data ?sm2)) = {?sid}"
      using l by (simp add: addStorageSector_place Let_def wg_Add_def split: option.splits)
    ultimately show ?thesis
      by (simp add: sm' quiescent_def consistent_cong [of "deferred ?sid _"])
  next
    case (Some sector)
    with r False l have sm': "sm' = deferred ?sid (snd (addVirtualSector None ?sid sector ?sm2))"
      by (auto simp: addSector_eq Let_def apsnd_def map_prod_def split: prod.splits)
    have "consistent (snd (addVirtualSector None ?sid sector ?sm2))"
      by (rule consistent_addVirtualSector [OF c2]) (simp add: s2 Some)
    moreover have "sectorLocks (snd (addVirtualSector None ?sid sector ?sm2)) = {?sid}"
      using l by (simp add: addVirtualSector_eq Let_def wg_Add_def)
    ultimately show ?thesis
      by (simp add: sm' quiescent_def consistent_cong [of "deferred ?sid _"])
  qed
qed

subsection \<open>Restart\<close>

text \<open>
  The manager constructed on a durable state that the startup replay brings back to
  the one of a consistent manager \<open>sm\<close>, the contents of the data files apart (every
  folder of \<open>sm\<close> still has its file): it is at rest and has the indexes and the slots
  of \<open>sm\<close>, and its folders are those of \<open>sm\<close> opened again on these files.
\<close>

lemma dataFiles_addStorageSector:
  "dataFiles (persistDir sm) fid = Some c
     \<Longrightarrow> \<exists>c'. dataFiles (persistDir (snd (addStorageSector S fault sid data sm))) fid = Some c'"
  by (auto simp: addStorageSector_place Let_def split: option.splits)

lemma restart_of_recovered:
  assumes c: "consistent sm" and r: "recover d0 = (persistDir sm)\<lparr>dataFiles := X\<rparr>"
    and files: "\<forall>fid f. folders sm fid = Some f \<longrightarrow> (\<exists>c. X fid = Some c)"
  shows "\<exists>sm3. New newStorageManager d0 = (Some sm3, None)
           \<and> quiescent sm3
           \<and> sectorSalt sm3 = sectorSalt sm
           \<and> sectors sm3 = sectors sm
           \<and> slots sm3 = slots sm
           \<and> atomicSwitch sm3 = 0
           \<and> persistDir sm3 = (persistDir sm)\<lparr>dataFiles := X\<rparr>
           \<and> folders sm3 = (\<lambda>fid. map_option (\<lambda>f. openFolder (metaOf f) (X fid)) (folders sm fid))"
proof -
  let ?d = "(persistDir sm)\<lparr>dataFiles := X\<rparr>"
  let ?sm3 = "wg_Add \<lparr>sectorSalt = salt ?d,
                folders = (\<lambda>fid. map_option (\<lambda>m. openFolder m (dataFiles ?d fid))
                                    (folderIndex ?d fid)),
                sectors = sectorIndex ?d,
                sectorLocks = {},
                persistDir = ?d,
                stopChan = 0,
                atomicSwitch = 0,
                wg = 0\<rparr>"
  from c have mir: "folderIndex (persistDir sm) fid = map_option metaOf (folders sm fid)" for fid
    by (simp add: consistent_def)
  have new: "New newStorageManager d0 = (Some ?sm3, None)"
    by (simp add: New_def newStorageManager_def r Let_def)
  have fo: "folders ?sm3 = (\<lambda>fid. map_option (\<lambda>f. openFolder (metaOf f) (X fid)) (folders sm fid))"
    by (simp add: wg_Add_def mir option.map_comp comp_def)
  have sl: "slots ?sm3 = slots sm"
    by (rule ext, simp only: slots_def fo) (simp add: option.map_comp comp_def)
  have fm: "dataFiles (persistDir ?sm3) fid = Some (contents (sectorData g))"
    if "folders ?sm3 fid = Some g" for fid g
  proof -
    from that have "map_option (\<lambda>f. openFolder (metaOf f) (X fid)) (folders sm fid) = Some g"
      by (simp only: fo)
    then obtain f where f: "folders sm fid = Some f" and g: "g = openFolder (metaOf f) (X fid)"
      by auto
    from files f obtain c where "X fid = Some c" by blast
    then show ?thesis by (simp add: g wg_Add_def)
  qed
  have rest: "sectorSalt ?sm3 = salt (persistDir ?sm3)"
      "sectors ?sm3 = sectorIndex (persistDir ?sm3)"
      "map_option metaOf (folders ?sm3 fid) = folderIndex (persistDir ?sm3) fid"
      "replay (walFile (persistDir ?sm3)) = []"
      "sectorLocks ?sm3 = {}" for fid
    using c by (simp_all add: consistent_def wg_Add_def mir option.map_comp comp_def)
  have len: "length (occupancy g) \<le> 2 ^ 32" if "folders ?sm3 fid = Some g" for fid g
  proof -
    from that have "map_option (\<lambda>f. openFolder (metaOf f) (X fid)) (folders sm fid) = Some g"
      by (simp only: fo)
    then obtain f where f: "folders sm fid = Some f" and g: "g = openFolder (metaOf f) (X fid)"
      by auto
    from c f have "length (occupancy f) \<le> 2 ^ 32" by (auto simp: consistent_def)
    then show ?thesis by (simp add: g)
  qed
  have reg: "\<exists>s. sectorIndex (persistDir ?sm3) sid = Some s \<and> storageFolder s = fid"
    if "(fid, sid) \<in> folderSectors (persistDir ?sm3)" for fid sid
    using consistent_registered [OF c, of fid sid] that by (simp add: wg_Add_def)
  have q: "quiescent ?sm3"
    unfolding quiescent_def consistent_def
    using rest fm len reg by blast
  from c have "sectorSalt ?sm3 = sectorSalt sm" "sectors ?sm3 = sectors sm"
    by (simp_all add: wg_Add_def consistent_def)
  with new fo sl q show ?thesis
    by (intro exI [of _ ?sm3]) (simp add: wg_Add_def)
qed

lemma restorable_of_consistent:
  assumes c: "consistent sm" and ab: "sectors sm sid = None"
    and eq: "folders sm' = folders sm" "persistDir sm' = persistDir sm"
  shows "restorable sid sm'"
proof -
  from c ab have si: "sectorIndex (persistDir sm) sid = None" by (simp add: consistent_def)
  have g: "(fid, sid) \<notin> folderSectors (persistDir sm)" for fid
    using consistent_registered [OF c, of fid sid] si by auto
  show ?thesis using c si g by (simp add: restorable_def eq consistent_def)
qed

subsection \<open>The two halves of crash atomicity\<close>

lemma crash_physical:
  assumes q: "quiescent sm" and sw: "atomicSwitch sm \<noteq> 1"
    and ab: "sectors sm (H (sectorSalt sm) root) = None"
    and p: "p = PhysicalPrepare \<or> p = PhysicalProcess"
  shows "\<exists>sm3. stopAndRestart H S p root data sm = Some sm3
           \<and> quiescent sm3
           \<and> sectorAbsent (H (sectorSalt sm) root) sm3
           \<and> slots sm3 = slots sm"
proof -
  let ?sid = "H (sectorSalt sm) root"
  let ?sm2 = "(wg_Add sm)\<lparr>sectorLocks := insert ?sid (sectorLocks sm)\<rparr>"
  let ?r = "addStorageSector S (Some p) ?sid data ?sm2"
  from q have l: "sectorLocks sm = {}" and c: "consistent sm" by (simp_all add: quiescent_def)
  have run: "addSector H S (Some p) root data sm = Some (apsnd (deferred ?sid) ?r)"
    using sw l ab by (simp add: addSector_eq Let_def)
  have res: "restorable ?sid ?sm2"
    by (rule restorable_of_consistent [OF c ab]) (simp_all add: wg_Add_def)
  have "recover (persistDir (snd ?r))
          = (persistDir ?sm2)\<lparr>dataFiles := dataFiles (persistDir (snd ?r))\<rparr>"
    using p by (intro physical_stop_recover [OF res]) auto
  then have rec: "recover (persistDir (snd ?r))
          = (persistDir sm)\<lparr>dataFiles := dataFiles (persistDir (snd ?r))\<rparr>"
    by (simp add: wg_Add_def)
  have files: "\<forall>fid f. folders sm fid = Some f
                  \<longrightarrow> (\<exists>c. dataFiles (persistDir (snd ?r)) fid = Some c)"
  proof (intro allI impI)
    fix fid f assume "folders sm fid = Some f"
    with c have "dataFiles (persistDir ?sm2) fid = Some (contents (sectorData f))"
      by (simp add: consistent_def wg_Add_def)
    then show "\<exists>c. dataFiles (persistDir (snd ?r)) fid = Some c"
      by (rule dataFiles_addStorageSector)
  qed
  from restart_of_recovered [OF c rec files]
  obtain sm3 where new: "New newStorageManager (persistDir (snd ?r)) = (Some sm3, None)"
    and q3: "quiescent sm3" and s3: "sectors sm3 = sectors sm" and sl: "slots sm3 = slots sm"
    and p3: "persistDir sm3 = (persistDir sm)\<lparr>dataFiles := dataFiles (persistDir (snd ?r))\<rparr>"
    by blast
  have sar: "stopAndRestart H S p root data sm = Some sm3"
    by (simp add: stopAndRestart_def run restart_def new case_prod_beta)
  from c ab have si: "sectorIndex (persistDir sm) ?sid = None" by (simp add: consistent_def)
  have g: "(fid, ?sid) \<notin> folderSectors (persistDir sm)" for fid
    using consistent_registered [OF c, of fid ?sid] si by auto
  have "sectorAbsent ?sid sm3"
    using ab si g by (simp add: sectorAbsent_def s3 p3)
  with sar q3 sl show ?thesis by blast
qed


lemma first_add_success:
  assumes ab: "sectors sm (H (sectorSalt sm) root) = None"
    and first: "addSector H S None root data sm = Some (None, sm1)"
  shows "\<exists>fid f idx.
           place sm = Some (fid, f, idx)
         \<and> sectors sm1 = (sectors sm)(H (sectorSalt sm) root \<mapsto>
                             \<lparr>storageFolder = fid, index = of_nat idx, count = 1\<rparr>)
         \<and> folders sm1 = (folders sm)(fid \<mapsto>
              setUsedSectorSlot idx
                (f\<lparr>sectorData := (sectorData f)
                     \<lparr>contents := writeAt (unat S) idx data (contents (sectorData f))\<rparr>\<rparr>))
         \<and> dataFiles (persistDir sm1) fid
               = Some (writeAt (unat S) idx data (contents (sectorData f)))
         \<and> sectorIndex (persistDir sm1)
               = (sectorIndex (persistDir sm))(H (sectorSalt sm) root \<mapsto>
                             \<lparr>storageFolder = fid, index = of_nat idx, count = 1\<rparr>)
         \<and> folderSectors (persistDir sm1)
               = insert (fid, H (sectorSalt sm) root) (folderSectors (persistDir sm))
         \<and> sectorSalt sm1 = sectorSalt sm
         \<and> atomicSwitch sm1 = atomicSwitch sm
         \<and> atomicSwitch sm \<noteq> 1
         \<and> sectorLocks sm1 = sectorLocks sm
         \<and> wg sm1 = wg sm"
proof -
  let ?sid = "H (sectorSalt sm) root"
  let ?sm2 = "(wg_Add sm)\<lparr>sectorLocks := insert ?sid (sectorLocks sm)\<rparr>"
  from first have sw: "atomicSwitch sm \<noteq> 1" and l: "?sid \<notin> sectorLocks sm"
    by (auto simp: addSector_eq split: if_splits)
  from first sw l ab
  have r: "apsnd (deferred ?sid) (addStorageSector S None ?sid data ?sm2) = (None, sm1)"
    by (simp add: addSector_eq Let_def)
  show ?thesis
  proof (cases "place sm")
    case None
    with r show ?thesis by (simp add: addStorageSector_place wg_Add_def)
  next
    case (Some a)
    then obtain fid f idx where pl: "place sm = Some (fid, f, idx)" by (cases a) auto
    from r pl have nv: "\<not> invalid (sectorData f)"
      by (auto simp: addStorageSector_place Let_def wg_Add_def split: if_splits)
    from r pl nv
    have sm1: "sm1 = deferred ?sid (snd (addStorageSector S None ?sid data ?sm2))"
      by (auto simp: apsnd_def map_prod_def split: prod.splits)
    show ?thesis
      using sw l
      by (simp add: pl sm1 addStorageSector_place Let_def nv wg_Add_def)
  qed
qed

lemma crash_virtual:
  assumes q: "quiescent sm"
    and ab: "sectors sm (H (sectorSalt sm) root) = None"
    and first: "addSector H S None root data sm = Some (None, sm1)"
    and p: "p = VirtualPrepare \<or> p = VirtualProcess"
    and len: "length data = unat S"
    and S: "unat S \<le> 2 ^ 31"
  shows "\<exists>sm3. stopAndRestart H S p root data sm1 = Some sm3
           \<and> quiescent sm3
           \<and> sectorPresent H S root data 1 sm3
           \<and> slots sm3 = slots sm1"
proof -
  let ?sid = "H (sectorSalt sm) root"
  from first_add_success [OF ab first]
  obtain fid f idx where pl: "place sm = Some (fid, f, idx)"
    and s1: "sectors sm1 = (sectors sm)(?sid \<mapsto> \<lparr>storageFolder = fid, index = of_nat idx, count = 1\<rparr>)"
    and f1: "folders sm1 = (folders sm)(fid \<mapsto>
              setUsedSectorSlot idx
                (f\<lparr>sectorData := (sectorData f)
                     \<lparr>contents := writeAt (unat S) idx data (contents (sectorData f))\<rparr>\<rparr>))"
    and df: "dataFiles (persistDir sm1) fid
               = Some (writeAt (unat S) idx data (contents (sectorData f)))"
    and fs: "folderSectors (persistDir sm1) = insert (fid, ?sid) (folderSectors (persistDir sm))"
    and salt1: "sectorSalt sm1 = sectorSalt sm"
    and sw1: "atomicSwitch sm1 = atomicSwitch sm" and sw: "atomicSwitch sm \<noteq> 1"
    by blast
  let ?sector = "\<lparr>storageFolder = fid, index = of_nat idx :: 32 word, count = 1\<rparr>"
  let ?c = "writeAt (unat S) idx data (contents (sectorData f))"
  note fpl = place_Some [OF pl]
  from q have c: "consistent sm" by (simp add: quiescent_def)
  have q1: "quiescent sm1" by (rule quiescent_addSector [OF q first])
  then have l1: "sectorLocks sm1 = {}" and c1: "consistent sm1" by (simp_all add: quiescent_def)
  let ?sm2 = "(wg_Add sm1)\<lparr>sectorLocks := insert ?sid (sectorLocks sm1)\<rparr>"
  let ?r = "addVirtualSector (Some p) ?sid ?sector ?sm2"
  have pres: "sectors sm1 ?sid = Some ?sector" by (simp add: s1)
  have run: "addSector H S (Some p) root data sm1 = Some (apsnd (deferred ?sid) ?r)"
    using sw sw1 l1 pres by (simp add: addSector_eq Let_def salt1)
  have "recover (persistDir (snd ?r)) = persistDir ?sm2"
  proof (rule virtual_stop_recover)
    show "replay (walFile (persistDir ?sm2)) = []"
      using c1 by (simp add: consistent_def wg_Add_def)
    show "sectorIndex (persistDir ?sm2) ?sid = Some ?sector"
      using c1 pres by (simp add: consistent_def wg_Add_def)
    show "Some p = Some VirtualPrepare \<or> Some p = Some VirtualProcess" using p by simp
  qed
  then have rec: "recover (persistDir (snd ?r))
                    = (persistDir sm1)\<lparr>dataFiles := dataFiles (persistDir sm1)\<rparr>"
    by (simp add: wg_Add_def)
  have files: "\<forall>fid g. folders sm1 fid = Some g
                  \<longrightarrow> (\<exists>c. dataFiles (persistDir sm1) fid = Some c)"
    using c1 by (simp add: consistent_def)
  from restart_of_recovered [OF c1 rec files]
  obtain sm3 where new: "New newStorageManager (persistDir (snd ?r)) = (Some sm3, None)"
    and q3: "quiescent sm3" and salt3: "sectorSalt sm3 = sectorSalt sm1"
    and s3: "sectors sm3 = sectors sm1" and sl: "slots sm3 = slots sm1"
    and sw3: "atomicSwitch sm3 = 0"
    and p3: "persistDir sm3 = (persistDir sm1)\<lparr>dataFiles := dataFiles (persistDir sm1)\<rparr>"
    and f3: "folders sm3 = (\<lambda>fid. map_option (\<lambda>f. openFolder (metaOf f) (dataFiles (persistDir sm1) fid))
                                      (folders sm1 fid))"
    by blast
  have sar: "stopAndRestart H S p root data sm1 = Some sm3"
    using new by (simp add: stopAndRestart_def run restart_def case_prod_beta)
  from q3 have l3: "sectorLocks sm3 = {}" and c3: "consistent sm3" by (simp_all add: quiescent_def)
  have sid3: "H (sectorSalt sm3) root = ?sid" by (simp add: salt3 salt1)
  have pres3: "sectors sm3 ?sid = Some ?sector" by (simp add: s3 pres)
  have idx: "idx < 2 ^ 32"
  proof -
    from c fpl(1) have "length (occupancy f) \<le> 2 ^ 32" by (auto simp: consistent_def)
    with fpl(2) show ?thesis by simp
  qed
  have fold3: "folders sm3 fid = Some (openFolder
                  (metaOf (setUsedSectorSlot idx (f\<lparr>sectorData := (sectorData f)\<lparr>contents := ?c\<rparr>\<rparr>)))
                  (Some ?c))"
    by (simp add: f3 f1 df)
  have read: "ReadSector H S root sm3 = Some (Inr data, sm3)"
  proof -
    have h1: "atomicSwitch sm3 \<noteq> 1" by (simp add: sw3)
    have h2: "H (sectorSalt sm3) root \<notin> sectorLocks sm3" by (simp add: l3)
    have lenc: "idx * unat S + unat S \<le> length ?c"
      using writeAt_length [of idx "unat S" data "contents (sectorData f)"] len by simp
    have tk: "take (unat S) (drop (idx * unat S) ?c) = data"
      using writeAt_read [of data idx "unat S" "contents (sectorData f)"] len by simp
    show ?thesis
      using lenc tk
      by (simp add: ReadSector_running [where H = H and sm = sm3 and root = root, OF h1 h2]
            readSector_eq [OF S] sid3 pres3 fold3 nat_word32 [OF idx])
  qed
  have "sectorIndex (persistDir sm3) ?sid = Some ?sector"
    using c3 pres3 by (simp add: consistent_def)
  moreover have "(fid, ?sid) \<in> folderSectors (persistDir sm3)" by (simp add: p3 fs)
  ultimately have "sectorPresent H S root data 1 sm3"
    using pres3 read by (simp add: sectorPresent_def sid3)
  with sar q3 sl show ?thesis by blast
qed





text \<open>
  A sector that is present, with whatever reference count: a stop at a virtual point
  and a restart leave it as it was, and an add of the same root that runs to its
  return counts one more reference on it.
\<close>

lemma readSector_cong:
  "contents f = contents g \<Longrightarrow> invalid f = invalid g \<Longrightarrow> readSector S f i = readSector S g i"
  by (simp add: readSector_def File_ReadAt_def)

lemma readSector_invalid: "invalid f \<Longrightarrow> readSector S f i = Inl ErrReadSector"
  by (simp add: readSector_def File_ReadAt_def)

lemma sectorPresent_read:
  assumes sw: "atomicSwitch sm \<noteq> 1" and l: "sectorLocks sm = {}"
    and pr: "sectorPresent H S root data n sm"
  shows "\<exists>s sf. sectors sm (H (sectorSalt sm) root) = Some s
            \<and> sectorIndex (persistDir sm) (H (sectorSalt sm) root) = Some s
            \<and> count s = n
            \<and> (storageFolder s, H (sectorSalt sm) root) \<in> folderSectors (persistDir sm)
            \<and> folders sm (storageFolder s) = Some sf
            \<and> atomicUnavailable sf \<noteq> 1
            \<and> \<not> invalid (sectorData sf)
            \<and> readSector S (sectorData sf) (index s) = Inr data"
proof -
  let ?sid = "H (sectorSalt sm) root"
  from pr obtain s where s: "sectors sm ?sid = Some s"
    and si: "sectorIndex (persistDir sm) ?sid = Some s" and n: "count s = n"
    and reg: "(storageFolder s, ?sid) \<in> folderSectors (persistDir sm)"
    and rd: "ReadSector H S root sm = Some (Inr data, sm)"
    by (auto simp: sectorPresent_def)
  have h2: "?sid \<notin> sectorLocks sm" by (simp add: l)
  from rd obtain sf where sf: "folders sm (storageFolder s) = Some sf"
    and av: "atomicUnavailable sf \<noteq> 1"
    and r: "readSector S (sectorData sf) (index s) = Inr data"
    by (auto simp: ReadSector_running [where H = H and sm = sm and root = root, OF sw h2] s
          split: option.splits if_splits)
  from r have "\<not> invalid (sectorData sf)" by (auto simp: readSector_invalid)
  with s si n reg sf av r show ?thesis by blast
qed

lemma crash_virtual_present:
  assumes q: "quiescent sm" and sw: "atomicSwitch sm \<noteq> 1"
    and pr: "sectorPresent H S root data n sm"
    and p: "p = VirtualPrepare \<or> p = VirtualProcess"
  shows "\<exists>sm3. stopAndRestart H S p root data' sm = Some sm3
           \<and> quiescent sm3
           \<and> sectorPresent H S root data n sm3
           \<and> slots sm3 = slots sm"
proof -
  let ?sid = "H (sectorSalt sm) root"
  from q have l: "sectorLocks sm = {}" and c: "consistent sm" by (simp_all add: quiescent_def)
  from sectorPresent_read [OF sw l pr]
  obtain s sf where s: "sectors sm ?sid = Some s"
    and si: "sectorIndex (persistDir sm) ?sid = Some s" and n: "count s = n"
    and reg: "(storageFolder s, ?sid) \<in> folderSectors (persistDir sm)"
    and sf: "folders sm (storageFolder s) = Some sf"
    and nv: "\<not> invalid (sectorData sf)"
    and r: "readSector S (sectorData sf) (index s) = Inr data"
    by blast
  let ?sm2 = "(wg_Add sm)\<lparr>sectorLocks := insert ?sid (sectorLocks sm)\<rparr>"
  let ?r = "addVirtualSector (Some p) ?sid s ?sm2"
  have run: "addSector H S (Some p) root data' sm = Some (apsnd (deferred ?sid) ?r)"
    using sw l s by (simp add: addSector_eq Let_def)
  have "recover (persistDir (snd ?r)) = persistDir ?sm2"
  proof (rule virtual_stop_recover)
    show "replay (walFile (persistDir ?sm2)) = []"
      using c by (simp add: consistent_def wg_Add_def)
    show "sectorIndex (persistDir ?sm2) ?sid = Some s"
      using si by (simp add: wg_Add_def)
    show "Some p = Some VirtualPrepare \<or> Some p = Some VirtualProcess" using p by simp
  qed
  then have rec: "recover (persistDir (snd ?r))
                    = (persistDir sm)\<lparr>dataFiles := dataFiles (persistDir sm)\<rparr>"
    by (simp add: wg_Add_def)
  have files: "\<forall>fid g. folders sm fid = Some g
                  \<longrightarrow> (\<exists>c. dataFiles (persistDir sm) fid = Some c)"
    using c by (simp add: consistent_def)
  from restart_of_recovered [OF c rec files]
  obtain sm3 where new: "New newStorageManager (persistDir (snd ?r)) = (Some sm3, None)"
    and q3: "quiescent sm3" and salt3: "sectorSalt sm3 = sectorSalt sm"
    and s3: "sectors sm3 = sectors sm" and sl: "slots sm3 = slots sm"
    and sw3: "atomicSwitch sm3 = 0"
    and p3: "persistDir sm3 = (persistDir sm)\<lparr>dataFiles := dataFiles (persistDir sm)\<rparr>"
    and f3: "folders sm3 = (\<lambda>fid. map_option (\<lambda>f. openFolder (metaOf f) (dataFiles (persistDir sm) fid))
                                      (folders sm fid))"
    by blast
  have sar: "stopAndRestart H S p root data' sm = Some sm3"
    using new by (simp add: stopAndRestart_def run restart_def case_prod_beta)
  from q3 have l3: "sectorLocks sm3 = {}" by (simp add: quiescent_def)
  from c sf have df: "dataFiles (persistDir sm) (storageFolder s) = Some (contents (sectorData sf))"
    by (simp add: consistent_def)
  have fold3: "folders sm3 (storageFolder s)
                 = Some (openFolder (metaOf sf) (Some (contents (sectorData sf))))"
    by (simp add: f3 sf df)
  have same: "readSector S (sectorData (openFolder (metaOf sf) (Some (contents (sectorData sf)))))
                (index s) = readSector S (sectorData sf) (index s)"
    using nv by (intro readSector_cong) simp_all
  have read: "ReadSector H S root sm3 = Some (Inr data, sm3)"
  proof -
    have h1: "atomicSwitch sm3 \<noteq> 1" by (simp add: sw3)
    have h2: "H (sectorSalt sm3) root \<notin> sectorLocks sm3" by (simp add: l3)
    show ?thesis
      using same r
      by (simp add: ReadSector_running [where H = H and sm = sm3 and root = root, OF h1 h2]
            salt3 s3 s fold3)
  qed
  have "sectorPresent H S root data n sm3"
    using s si n reg read by (simp add: sectorPresent_def salt3 s3 p3)
  with sar q3 sl show ?thesis by blast
qed

lemma virtual_add_present:
  assumes q: "quiescent sm" and sw: "atomicSwitch sm \<noteq> 1"
    and pr: "sectorPresent H S root data n sm"
  shows "\<exists>sm1. addSector H S None root data' sm = Some (None, sm1)
           \<and> quiescent sm1
           \<and> sectorPresent H S root data (Suc n) sm1
           \<and> slots sm1 = slots sm"
proof -
  let ?sid = "H (sectorSalt sm) root"
  from q have l: "sectorLocks sm = {}" and c: "consistent sm" by (simp_all add: quiescent_def)
  from sectorPresent_read [OF sw l pr]
  obtain s sf where s: "sectors sm ?sid = Some s"
    and si: "sectorIndex (persistDir sm) ?sid = Some s" and n: "count s = n"
    and reg: "(storageFolder s, ?sid) \<in> folderSectors (persistDir sm)"
    and sf: "folders sm (storageFolder s) = Some sf"
    and av: "atomicUnavailable sf \<noteq> 1"
    and r: "readSector S (sectorData sf) (index s) = Inr data"
    by blast
  let ?sm2 = "(wg_Add sm)\<lparr>sectorLocks := insert ?sid (sectorLocks sm)\<rparr>"
  let ?r = "addVirtualSector None ?sid s ?sm2"
  let ?sm1 = "deferred ?sid (snd ?r)"
  have e: "fst ?r = None" by (simp add: addVirtualSector_eq Let_def)
  have run: "addSector H S None root data' sm = Some (None, ?sm1)"
    using sw l s e by (simp add: addSector_eq Let_def apsnd_def map_prod_def case_prod_beta)
  then have q1: "quiescent ?sm1" by (rule quiescent_addSector [OF q])
  have fields: "sectorSalt ?sm1 = sectorSalt sm" "folders ?sm1 = folders sm"
      "atomicSwitch ?sm1 = atomicSwitch sm" "sectorLocks ?sm1 = {}"
      "sectors ?sm1 = (sectors sm)(?sid \<mapsto> s\<lparr>count := Suc n\<rparr>)"
      "sectorIndex (persistDir ?sm1) = (sectorIndex (persistDir sm))(?sid \<mapsto> s\<lparr>count := Suc n\<rparr>)"
      "folderSectors (persistDir ?sm1) = folderSectors (persistDir sm)"
    using l n by (simp_all add: addVirtualSector_eq Let_def wg_Add_def)
  have read: "ReadSector H S root ?sm1 = Some (Inr data, ?sm1)"
  proof -
    have h1: "atomicSwitch ?sm1 \<noteq> 1" using sw by (simp only: fields) simp
    have h2: "H (sectorSalt ?sm1) root \<notin> sectorLocks ?sm1" by (simp only: fields) simp
    show ?thesis
      using av r
      by (simp only: ReadSector_running [where H = H and sm = ?sm1 and root = root, OF h1 h2]
            fields) (simp add: sf)
  qed
  have "sectorPresent H S root data (Suc n) ?sm1"
    unfolding sectorPresent_def
    using reg read by (simp only: fields) simp
  moreover have "slots ?sm1 = slots sm"
    by (rule ext) (simp only: slots_def fields)
  ultimately show ?thesis using run q1 by blast
qed


subsection \<open>The second add of the same content\<close>

lemma second_add_virtual:
  assumes ab: "sectors sm (H (sectorSalt sm) root) = None"
    and first: "addSector H S None root data sm = Some (None, sm1)"
  shows "\<exists>sm2 s. addSector H S None root data sm1 = Some (None, sm2)
           \<and> sectors sm2 (H (sectorSalt sm) root) = Some s
           \<and> sectorIndex (persistDir sm2) (H (sectorSalt sm) root) = Some s
           \<and> count s = 2
           \<and> folders sm2 = folders sm1
           \<and> usedSlotsTotal sm2 = usedSlotsTotal sm1"
proof -
  let ?sid = "H (sectorSalt sm) root"
  from first have l: "?sid \<notin> sectorLocks sm"
    by (auto simp: addSector_eq split: if_splits)
  from first_add_success [OF ab first]
  obtain fid idx where
        s1: "sectors sm1 = (sectors sm)(?sid \<mapsto> \<lparr>storageFolder = fid, index = of_nat idx, count = 1\<rparr>)"
    and salt1: "sectorSalt sm1 = sectorSalt sm"
    and sw1: "atomicSwitch sm1 = atomicSwitch sm" and sw: "atomicSwitch sm \<noteq> 1"
    and l1: "sectorLocks sm1 = sectorLocks sm"
    by blast
  let ?sector = "\<lparr>storageFolder = fid, index = of_nat idx :: 32 word, count = 1\<rparr>"
  let ?sm2 = "(wg_Add sm1)\<lparr>sectorLocks := insert ?sid (sectorLocks sm1)\<rparr>"
  let ?r = "addVirtualSector None ?sid ?sector ?sm2"
  have run: "addSector H S None root data sm1 = Some (apsnd (deferred ?sid) ?r)"
    using sw sw1 l l1 by (simp add: addSector_eq Let_def salt1 s1)
  have e: "fst ?r = None" by (simp add: addVirtualSector_eq Let_def)
  let ?sm' = "deferred ?sid (snd ?r)"
  have "addSector H S None root data sm1 = Some (None, ?sm')"
    using e by (simp add: run apsnd_def map_prod_def case_prod_beta)
  moreover have "sectors ?sm' ?sid = Some (?sector\<lparr>count := 2\<rparr>)"
    by (simp add: addVirtualSector_eq Let_def wg_Add_def)
  moreover have "sectorIndex (persistDir ?sm') ?sid = Some (?sector\<lparr>count := 2\<rparr>)"
    by (simp add: addVirtualSector_eq Let_def wg_Add_def)
  moreover have fo: "folders ?sm' = folders sm1"
    by (simp add: addVirtualSector_eq Let_def wg_Add_def)
  moreover have "usedSlotsTotal ?sm' = usedSlotsTotal sm1"
    by (simp only: usedSlotsTotal_def fo)
  ultimately show ?thesis by (intro exI [of _ ?sm'] exI [of _ "?sector\<lparr>count := 2\<rparr>"]) simp
qed

lemma usedSlotsTotal_eq:
  "usedSlotsTotal sm = (\<Sum>fid\<in>UNIV. case slots sm fid of None \<Rightarrow> 0 | Some x \<Rightarrow> fst x)"
  unfolding usedSlotsTotal_def
  by (rule sum.cong) (simp_all add: slots_def split: option.split)

lemma usedSlotsTotal_slots:
  assumes "slots a = slots b"
  shows "usedSlotsTotal a = usedSlotsTotal b"
  by (simp only: usedSlotsTotal_eq assms)

subsection \<open>A running manager between two calls\<close>

text \<open>
  A manager just constructed is idle, every call of a history leaves it idle, and
  \<open>Close\<close> on an idle manager returns once the maintenance goroutine has stopped.
  The folder addition logs one transaction and commits it.
\<close>

lemma replay_filter_committed [simp]: "replay (filter committed w) = []"
  by (induction w) (auto simp: replay_def)




lemma fields_addStorageSector [simp]:
  "sectorLocks (snd (addStorageSector S fault sid data sm)) = sectorLocks sm"
  "atomicSwitch (snd (addStorageSector S fault sid data sm)) = atomicSwitch sm"
  "wg (snd (addStorageSector S fault sid data sm)) = wg sm"
  by (auto simp: addStorageSector_place Let_def split: option.splits)

lemma fields_addVirtualSector [simp]:
  "sectorLocks (snd (addVirtualSector fault sid sector sm)) = sectorLocks sm"
  "atomicSwitch (snd (addVirtualSector fault sid sector sm)) = atomicSwitch sm"
  "wg (snd (addVirtualSector fault sid sector sm)) = wg sm"
  by (auto simp: addVirtualSector_eq Let_def)






subsection \<open>Close with an add in flight\<close>

text \<open>
  An add that waits at a logged boundary and is resumed is the add: the two halves
  make the whole call. While it waits, the log shows its transaction, and \<open>Close\<close> does
  not return; once it has run on to its return and the maintenance goroutine has
  stopped, \<open>Close\<close> returns and the log shows no incomplete transaction.
\<close>

lemma begin_cases:
  assumes b: "beginAddSector H S p root data sm = Some (pend, sm')"
  obtains (physical) fid f idx where
      "atomicSwitch sm \<noteq> 1" "H (sectorSalt sm) root \<notin> sectorLocks sm"
      "sectors sm (H (sectorSalt sm) root) = None"
      "place sm = Some (fid, f, idx)"
      "p = PhysicalPrepare \<or> (p = PhysicalProcess \<and> \<not> invalid (sectorData f))"
      "pend = PendingPhysical p (H (sectorSalt sm) root) data
                (length (walFile (persistDir sm))) fid idx"
      "sm' = snd (addStorageSector S (Some p) (H (sectorSalt sm) root) data
                   ((wg_Add sm)\<lparr>sectorLocks := insert (H (sectorSalt sm) root) (sectorLocks sm)\<rparr>))"
  | (virtual) sector where
      "atomicSwitch sm \<noteq> 1" "H (sectorSalt sm) root \<notin> sectorLocks sm"
      "sectors sm (H (sectorSalt sm) root) = Some sector"
      "p = VirtualPrepare \<or> p = VirtualProcess"
      "pend = PendingVirtual p (H (sectorSalt sm) root)
                (length (walFile (persistDir sm))) sector"
      "sm' = snd (addVirtualSector (Some p) (H (sectorSalt sm) root) sector
                   ((wg_Add sm)\<lparr>sectorLocks := insert (H (sectorSalt sm) root) (sectorLocks sm)\<rparr>))"
  using b
  by (auto simp: beginAddSector_def Let_def lockSector_def wg_Add_def
        split: if_splits option.splits)

lemma begin_resume:
  assumes b: "beginAddSector H S p root data sm = Some (pend, sm')"
  shows "addSector H S None root data sm = Some (finishAddSector S pend sm')"
  using b
proof (cases rule: begin_cases)
  case (physical fid f idx)
  from place_Some(1) [OF physical(4)] have f: "folders sm fid = Some f" .
  show ?thesis
    using physical(5)
    by (auto simp: addSector_running [where H = H and sm = sm and root = root, OF physical(1,2)] physical(3,4,6,7) Let_def
          finishAddSector_def addStorageSector_place f wg_Add_def appendUpdate_def
          markCommitted_def discard_def nth_append apsnd_def map_prod_def)
next
  case (virtual sector)
  show ?thesis
    using virtual(4)
    by (auto simp: addSector_running [where H = H and sm = sm and root = root, OF virtual(1,2)] virtual(3,5,6) Let_def
          finishAddSector_def addVirtualSector_eq wg_Add_def markCommitted_def nth_append
          apsnd_def map_prod_def)
qed









section \<open>Deduplication, crash atomicity, the WAL after a clean shutdown\<close>


lemma example_place:
  "place exampleManager
     = Some (0, \<lparr>atomicUnavailable = 0,
                 sectorData = \<lparr>contents = [1, 2, 0, 0], invalid = False\<rparr>,
                 capacity = 2, usedSlots = 1, occupancy = [True, False]\<rparr>, 1)"
  by (simp add: place_def exampleManager_def chooseFolder.simps [of _ 0])

lemma example_first_add:
  "\<exists>sm1. addSector exampleHash 2 None [6] [3, 4] exampleManager = Some (None, sm1)"
proof -
  have "atomicSwitch exampleManager \<noteq> 1"
    and "exampleHash (sectorSalt exampleManager) [6] \<notin> sectorLocks exampleManager"
    and "sectors exampleManager (exampleHash (sectorSalt exampleManager) [6]) = None"
    by (simp_all add: exampleManager_def exampleHash_def)
  moreover have "place (wg_Add exampleManager) = place exampleManager"
    by (simp add: wg_Add_def)
  ultimately show ?thesis
    by (simp add: addSector_eq Let_def addStorageSector_place example_place
          apsnd_def map_prod_def)
qed

lemma example_quiescent: "quiescent exampleManager"
  by (auto simp: quiescent_def consistent_def exampleManager_def exampleDisk_def metaOf_def
        replay_def)

lemma example_present: "sectorPresent exampleHash 2 [5] [1, 2] 1 exampleManager"
  by (simp add: sectorPresent_def ReadSector_def exampleManager_def exampleDisk_def
        exampleHash_def lockSector_def unlockSector_def wg_Add_def wg_Done_def deferred_def
        readSector_def File_ReadAt_def Let_def)

text \<open>
  C2. On a store that does not hold the content (its identifier is not in the sector
  index), once a first \<open>AddSector(root, data)\<close> has succeeded, a second call with the
  same root and data succeeds, leaves the sector record with reference count 2 in the
  in-memory and in the durable index, and leaves every folder as the first call left
  it: no further slot is used, and the total of the used-slot counts is the one after
  the first add.
\<close>

theorem AddSector_deduplication:
  assumes "sectors sm (H (sectorSalt sm) root) = None"
    and "addSector H S None root data sm = Some (None, sm1)"
  shows "\<exists>sm2 s. addSector H S None root data sm1 = Some (None, sm2)
           \<and> sectors sm2 (H (sectorSalt sm) root) = Some s
           \<and> sectorIndex (persistDir sm2) (H (sectorSalt sm) root) = Some s
           \<and> count s = 2
           \<and> folders sm2 = folders sm1
           \<and> usedSlotsTotal sm2 = usedSlotsTotal sm1"
  using assms by (rule second_add_virtual)

theorem AddSector_deduplication_witness:
  "sectors exampleManager (exampleHash (sectorSalt exampleManager) [6]) = None
   \<and> (\<exists>sm1 sm2 s.
         addSector exampleHash 2 None [6] [3, 4] exampleManager = Some (None, sm1)
       \<and> addSector exampleHash 2 None [6] [3, 4] sm1 = Some (None, sm2)
       \<and> sectors sm2 (exampleHash (sectorSalt exampleManager) [6]) = Some s
       \<and> count s = 2
       \<and> usedSlotsTotal sm2 = usedSlotsTotal sm1)"
proof -
  have h1: "sectors exampleManager (exampleHash (sectorSalt exampleManager) [6]) = None"
    by (simp add: exampleManager_def exampleHash_def)
  from example_first_add obtain sm1
    where h2: "addSector exampleHash 2 None [6] [3, 4] exampleManager = Some (None, sm1)"
    by blast
  from AddSector_deduplication
         [where H = exampleHash and sm = exampleManager and root = "[6]", OF h1 h2]
  obtain sm2 s where "addSector exampleHash 2 None [6] [3, 4] sm1 = Some (None, sm2)"
    and "sectors sm2 (exampleHash (sectorSalt exampleManager) [6]) = Some s"
    and "count s = 2" and "usedSlotsTotal sm2 = usedSlotsTotal sm1"
    by blast
  with h1 h2 show ?thesis by blast
qed

text \<open>
  C1. Take a store at rest (\<open>quiescent\<close>) that accepts operations, and an \<open>AddSector\<close>
  that is stopped at one of the four points, after which a new manager is constructed
  over the same persist directory. In each case the new store is at rest again, and
  the used-slot count and occupancy bitmap of every folder are those from before the
  stopped add (no orphaned reservation).
  If the store did not hold the content and the stop is at the physical prepare or
  the physical process point, the sector is absent: the lookup fails and no folder
  has it registered.
  If the store held the sector, with \<open>n\<close> references and the stored bytes readable,
  and the stop is at the virtual prepare or the virtual process point, the sector is
  present as before: one record with \<open>n\<close> references, registered under its folder,
  and reading it gives the same bytes.
  In particular, when a first add of one sector of data has been committed on a store
  that did not hold it and a second add of the same content is stopped at a virtual
  point, the sector is present with reference count 1, the only committed add, and
  reading it gives the data.
\<close>

theorem AddSector_crash_atomicity:
  assumes "quiescent sm"
    and "atomicSwitch sm \<noteq> 1"
  shows "(sectors sm (H (sectorSalt sm) root) = None \<longrightarrow>
          (\<forall>p\<in>{PhysicalPrepare, PhysicalProcess}.
             \<exists>sm3. stopAndRestart H S p root data sm = Some sm3
                 \<and> quiescent sm3
                 \<and> sectorAbsent (H (sectorSalt sm) root) sm3
                 \<and> slots sm3 = slots sm
                 \<and> usedSlotsTotal sm3 = usedSlotsTotal sm))
       \<and> (\<forall>stored n. sectorPresent H S root stored n sm \<longrightarrow>
          (\<forall>p\<in>{VirtualPrepare, VirtualProcess}.
             \<exists>sm3. stopAndRestart H S p root data sm = Some sm3
                 \<and> quiescent sm3
                 \<and> sectorPresent H S root stored n sm3
                 \<and> slots sm3 = slots sm
                 \<and> usedSlotsTotal sm3 = usedSlotsTotal sm))
       \<and> (sectors sm (H (sectorSalt sm) root) = None \<and> length data = unat S
            \<and> unat S \<le> 2 ^ 31 \<longrightarrow>
          (\<forall>p\<in>{VirtualPrepare, VirtualProcess}. \<forall>sm1.
             addSector H S None root data sm = Some (None, sm1) \<longrightarrow>
             (\<exists>sm3. stopAndRestart H S p root data sm1 = Some sm3
                  \<and> quiescent sm3
                  \<and> sectorPresent H S root data 1 sm3
                  \<and> slots sm3 = slots sm1
                  \<and> usedSlotsTotal sm3 = usedSlotsTotal sm1)))"
proof (intro conjI ballI allI impI)
  fix p
  assume ab: "sectors sm (H (sectorSalt sm) root) = None"
    and "p \<in> {PhysicalPrepare, PhysicalProcess}"
  then have "p = PhysicalPrepare \<or> p = PhysicalProcess" by simp
  with assms ab
  have "\<exists>sm3. stopAndRestart H S p root data sm = Some sm3
              \<and> quiescent sm3
              \<and> sectorAbsent (H (sectorSalt sm) root) sm3
              \<and> slots sm3 = slots sm"
    by (rule crash_physical)
  then show "\<exists>sm3. stopAndRestart H S p root data sm = Some sm3
              \<and> quiescent sm3
              \<and> sectorAbsent (H (sectorSalt sm) root) sm3
              \<and> slots sm3 = slots sm
              \<and> usedSlotsTotal sm3 = usedSlotsTotal sm"
    using usedSlotsTotal_slots by blast
next
  fix stored n p
  assume pr: "sectorPresent H S root stored n sm"
    and "p \<in> {VirtualPrepare, VirtualProcess}"
  then have "p = VirtualPrepare \<or> p = VirtualProcess" by simp
  with assms pr
  have "\<exists>sm3. stopAndRestart H S p root data sm = Some sm3
              \<and> quiescent sm3
              \<and> sectorPresent H S root stored n sm3
              \<and> slots sm3 = slots sm"
    by (rule crash_virtual_present)
  then show "\<exists>sm3. stopAndRestart H S p root data sm = Some sm3
              \<and> quiescent sm3
              \<and> sectorPresent H S root stored n sm3
              \<and> slots sm3 = slots sm
              \<and> usedSlotsTotal sm3 = usedSlotsTotal sm"
    using usedSlotsTotal_slots by blast
next
  fix p sm1
  assume h: "sectors sm (H (sectorSalt sm) root) = None \<and> length data = unat S
               \<and> unat S \<le> 2 ^ 31"
    and "p \<in> {VirtualPrepare, VirtualProcess}"
    and first: "addSector H S None root data sm = Some (None, sm1)"
  then have p: "p = VirtualPrepare \<or> p = VirtualProcess" by simp
  from h have ab: "sectors sm (H (sectorSalt sm) root) = None"
    and len: "length data = unat S" and S: "unat S \<le> 2 ^ 31"
    by simp_all
  from assms(1) ab first p len S
  have "\<exists>sm3. stopAndRestart H S p root data sm1 = Some sm3
              \<and> quiescent sm3
              \<and> sectorPresent H S root data 1 sm3
              \<and> slots sm3 = slots sm1"
    by (rule crash_virtual)
  then show "\<exists>sm3. stopAndRestart H S p root data sm1 = Some sm3
              \<and> quiescent sm3
              \<and> sectorPresent H S root data 1 sm3
              \<and> slots sm3 = slots sm1
              \<and> usedSlotsTotal sm3 = usedSlotsTotal sm1"
    using usedSlotsTotal_slots by blast
qed

theorem AddSector_crash_atomicity_witness:
  "quiescent exampleManager
   \<and> atomicSwitch exampleManager \<noteq> 1
   \<and> sectors exampleManager (exampleHash (sectorSalt exampleManager) [6]) = None
   \<and> (\<exists>sm3. stopAndRestart exampleHash 2 PhysicalProcess [6] [3, 4] exampleManager = Some sm3
            \<and> sectorAbsent (exampleHash (sectorSalt exampleManager) [6]) sm3
            \<and> slots sm3 = slots exampleManager)
   \<and> sectorPresent exampleHash 2 [5] [1, 2] 1 exampleManager
   \<and> (\<exists>sm3. stopAndRestart exampleHash 2 VirtualPrepare [5] [1, 2] exampleManager = Some sm3
            \<and> sectorPresent exampleHash 2 [5] [1, 2] 1 sm3)
   \<and> (\<exists>sm1 sm3. addSector exampleHash 2 None [6] [3, 4] exampleManager = Some (None, sm1)
            \<and> stopAndRestart exampleHash 2 VirtualProcess [6] [3, 4] sm1 = Some sm3
            \<and> sectorPresent exampleHash 2 [6] [3, 4] 1 sm3)"
proof -
  have h1: "quiescent exampleManager" by (rule example_quiescent)
  have h2: "atomicSwitch exampleManager \<noteq> 1" by (simp add: exampleManager_def)
  have h3: "sectors exampleManager (exampleHash (sectorSalt exampleManager) [6]) = None"
    by (simp add: exampleManager_def exampleHash_def)
  have h4: "sectorPresent exampleHash 2 [5] [1, 2] 1 exampleManager" by (rule example_present)
  note atom = AddSector_crash_atomicity [where H = exampleHash and sm = exampleManager, OF h1 h2]
  from atom [where root = "[6]" and data = "[3, 4]" and S = 2, THEN conjunct1] h3
  have a: "\<exists>sm3. stopAndRestart exampleHash 2 PhysicalProcess [6] [3, 4] exampleManager = Some sm3
            \<and> sectorAbsent (exampleHash (sectorSalt exampleManager) [6]) sm3
            \<and> slots sm3 = slots exampleManager"
    by blast
  from atom [where root = "[5]" and data = "[1, 2]" and S = 2, THEN conjunct2, THEN conjunct1] h4
  have b: "\<exists>sm3. stopAndRestart exampleHash 2 VirtualPrepare [5] [1, 2] exampleManager = Some sm3
            \<and> sectorPresent exampleHash 2 [5] [1, 2] 1 sm3"
    by blast
  from example_first_add obtain sm1
    where f: "addSector exampleHash 2 None [6] [3, 4] exampleManager = Some (None, sm1)"
    by blast
  have l: "length [3, 4 :: byte] = unat (2 :: 64 word)" "unat (2 :: 64 word) \<le> 2 ^ 31"
    by simp_all
  from atom [where root = "[6]" and data = "[3, 4]" and S = 2, THEN conjunct2, THEN conjunct2]
       h3 l f
  have "\<exists>sm3. stopAndRestart exampleHash 2 VirtualProcess [6] [3, 4] sm1 = Some sm3
            \<and> sectorPresent exampleHash 2 [6] [3, 4] 1 sm3"
    by blast
  with f have c: "\<exists>sm1 sm3. addSector exampleHash 2 None [6] [3, 4] exampleManager = Some (None, sm1)
            \<and> stopAndRestart exampleHash 2 VirtualProcess [6] [3, 4] sm1 = Some sm3
            \<and> sectorPresent exampleHash 2 [6] [3, 4] 1 sm3"
    by blast
  from h1 h2 h3 a h4 b c show ?thesis by (intro conjI)
qed




end
